theory Spec2Isabelle
  imports Complex_Main
begin

section \<open>Python values and library functions used by the importers\<close>

text \<open>
  Exceptions of the Python code are values: every function that can raise returns
  \<open>py_error + 'a\<close>, with \<open>Inl\<close> for the exception.
\<close>

datatype py_error =
    KeyError
  | ValueError
  | TypeError
  | AttributeError
  | IndexError
  | MultipleObjectsReturned

text \<open>
  The two kinds of Python value that meet in a comparison of the stop-time loop:
  a \<open>str\<close> and an \<open>int\<close>. Python's \<open>!=\<close> between a \<open>str\<close> and an
  \<open>int\<close> is always true; between two values of one kind it compares them.
\<close>

datatype py_val = PyStr string | PyInt int

definition py_ne :: "py_val \<Rightarrow> py_val \<Rightarrow> bool" where
  "py_ne a b = (a \<noteq> b)"

subsection \<open>Decimal digits\<close>

definition is_digit :: "char \<Rightarrow> bool" where
  "is_digit c = (c \<in> set ''0123456789'')"

definition digit_val :: "char \<Rightarrow> int" where
  "digit_val c = int (of_char c) - 48"

definition all_digits :: "string \<Rightarrow> bool" where
  "all_digits s = (s \<noteq> [] \<and> list_all is_digit s)"

definition int_of_digits :: "string \<Rightarrow> int" where
  "int_of_digits s = foldl (\<lambda>acc c. 10 * acc + digit_val c) 0 s"

subsection \<open>\<open>str.split(sep)\<close> for a one-character separator\<close>

fun split_char :: "char \<Rightarrow> string \<Rightarrow> string list" where
  "split_char sep [] = [[]]"
| "split_char sep (c # cs) =
     (if c = sep then [] # split_char sep cs
      else (case split_char sep cs of
              [] \<Rightarrow> [[c]]
            | p # ps \<Rightarrow> (c # p) # ps))"

subsection \<open>\<open>django.utils.dateparse.parse_duration\<close>\<close>

text \<open>
  Django's \<open>parse_duration\<close> on the clock forms of its standard format:
  \<open>S\<close>, \<open>M:S\<close> and \<open>H:M:S\<close>, every field a non-empty run of digits and no field
  range-checked (so the GTFS time \<open>25:10:00\<close> is 25 hours and 10 minutes). The result
  here is \<open>total_seconds()\<close> as an integer. The forms with days, a sign, fractional
  seconds, ISO 8601 and PostgreSQL intervals are not modelled: on them, as on every
  string Django's patterns reject, the model returns \<open>None\<close>.
\<close>

definition parse_duration :: "string \<Rightarrow> int option" where
  "parse_duration s =
     (let parts = split_char CHR '':'' s in
      if list_all all_digits parts then
        (case parts of
           [sec] \<Rightarrow> Some (int_of_digits sec)
         | [mi, sec] \<Rightarrow> Some (60 * int_of_digits mi + int_of_digits sec)
         | [h, mi, sec] \<Rightarrow>
             Some (3600 * int_of_digits h + 60 * int_of_digits mi + int_of_digits sec)
         | _ \<Rightarrow> None)
      else None)"

text \<open>
  \<open>int(parse_duration(s).total_seconds())\<close>: when \<open>parse_duration\<close> returns
  \<open>None\<close> the attribute access raises \<open>AttributeError\<close>.
\<close>

definition total_seconds_of :: "string \<Rightarrow> py_error + int" where
  "total_seconds_of s =
     (case parse_duration s of None \<Rightarrow> Inl AttributeError | Some n \<Rightarrow> Inr n)"

section \<open>Static ingestion: the stop-time rows of phase 2\<close>

text \<open>
  One row of \<open>feed.stop_times\<close>. The optional columns \<open>timepoint\<close>,
  \<open>pickup_type\<close> and \<open>drop_off_type\<close> are \<open>None\<close> when the feed has no such
  column (the \<open>getattr\<close> default applies).
\<close>

record stop_time_line =
  st_trip_id :: string
  st_stop_id :: string
  st_stop_sequence :: int
  st_arrival_time :: string
  st_departure_time :: string
  st_timepoint :: "int option"
  st_pickup_type :: "int option"
  st_drop_off_type :: "int option"

text \<open>The tuple handed to \<open>copy.write_row\<close>, with the trip's primary key.\<close>

record stop_time_row =
  row_stop_id :: string
  row_arrival :: "int option"
  row_departure :: int
  row_sequence :: int
  row_trip_pk :: nat
  row_timing_status :: string
  row_pick_up :: bool
  row_set_down :: bool
  row_stop_code :: string



text \<open>
  The arrival and departure of one row, lines 487 to 490 of the importer:
  \<^verbatim>\<open>
  departure = int(parse_duration(line.departure_time).total_seconds())
  arrival = None
  if line.arrival_time != departure:
      arrival = int(parse_duration(line.arrival_time).total_seconds())
  \<close>
  The comparison is between the row's arrival text and the departure in seconds.
\<close>

definition arrival_departure :: "stop_time_line \<Rightarrow> py_error + (int option \<times> int)" where
  "arrival_departure line =
     (case total_seconds_of (st_departure_time line) of
        Inl e \<Rightarrow> Inl e
      | Inr departure \<Rightarrow>
          (if py_ne (PyStr (st_arrival_time line)) (PyInt departure) then
             (case total_seconds_of (st_arrival_time line) of
                Inl e \<Rightarrow> Inl e
              | Inr arrival \<Rightarrow> Inr (Some arrival, departure))
           else Inr (None, departure)))"

definition apply_prefix :: "string \<Rightarrow> string \<Rightarrow> string" where
  "apply_prefix prefix ident = (if prefix \<noteq> [] then prefix @ ident else ident)"

section \<open>Static ingestion: trips and their start and end times\<close>

text \<open>
  One row of \<open>feed.trips\<close>. \<open>direction_id\<close> and \<open>block_id\<close> are \<open>None\<close>
  when the column is absent or the cell is empty; \<open>trip_headsign\<close> and
  \<open>trip_short_name\<close> carry the \<open>getattr\<close> default \<open>""\<close> when absent.
\<close>

record trip_line =
  tl_route_id :: string
  tl_service_id :: string
  tl_trip_id :: string
  tl_direction_id :: "int option"
  tl_trip_headsign :: string
  tl_block_id :: "string option"
  tl_trip_short_name :: string

text \<open>
  A \<open>Trip\<close>. \<open>trip_pk\<close> is \<open>None\<close> until \<open>bulk_create\<close> has stored the trip.
  \<open>trip_start\<close> and \<open>trip_end\<close> hold the feed's time text as the importer assigns it;
  \<open>destination\<close> is the code of a StopPoint, \<open>trip_operator\<close> the code of an Operator.
\<close>

record trip =
  trip_pk :: "nat option"
  trip_route :: nat
  trip_calendar :: nat
  inbound :: bool
  headsign :: string
  ticket_machine_code :: string
  block :: string
  vehicle_journey_code :: string
  trip_operator :: "string option"
  trip_start :: "string option"
  trip_end :: "string option"
  destination :: "string option"

subsection \<open>\<open>str.strip()\<close>\<close>

definition is_space :: "char \<Rightarrow> bool" where
  "is_space c = (of_char c \<in> {9::nat, 10, 11, 12, 13, 28, 29, 30, 31, 32})"

definition strip :: "string \<Rightarrow> string" where
  "strip s = rev (dropWhile is_space (rev (dropWhile is_space s)))"

definition block_of :: "string option \<Rightarrow> string" where
  "block_of block_id =
     (case block_id of
        None \<Rightarrow> []
      | Some b \<Rightarrow> (if strip b \<notin> set [[], ''N/A'', ''n/a''] then strip b else []))"

subsection \<open>Grouping the stop-time rows by trip\<close>

text \<open>
  The loop that fills \<open>stop_times_by_trip\<close>: each row is appended to the list of its
  trip, in feed order.
\<close>

fun group_stop_times ::
  "stop_time_line list \<Rightarrow> (string \<rightharpoonup> stop_time_line list) \<Rightarrow> (string \<rightharpoonup> stop_time_line list)"
where
  "group_stop_times [] by_trip = by_trip"
| "group_stop_times (line # rest) by_trip =
     group_stop_times rest
       (by_trip(st_trip_id line \<mapsto>
          (case by_trip (st_trip_id line) of None \<Rightarrow> [] | Some rows \<Rightarrow> rows) @ [line]))"

definition stop_times_by_trip :: "stop_time_line list \<Rightarrow> (string \<rightharpoonup> stop_time_line list)" where
  "stop_times_by_trip stop_times = group_stop_times stop_times Map.empty"

subsection \<open>Building one trip\<close>

text \<open>
  Lines 401 to 425: the \<open>Trip\<close> object, then its start, end and destination from the
  rows of the trip sorted by \<open>stop_sequence\<close> (Python's \<open>sorted\<close> is stable, as
  \<open>sort_key\<close> is). \<open>stops\<close> is the lookup returned by \<open>do_stops\<close>, here the set
  of known stop codes: \<open>stops.get\<close> gives the stop or \<open>None\<close>.
  In the source, the line that assigns \<open>trip.destination\<close> is indented by one column
  more than the block it closes; it is read here as the last statement of the
  \<open>if stop_times:\<close> block.
\<close>

definition build_trip ::
  "string \<Rightarrow> (string \<Rightarrow> bool) \<Rightarrow> (string \<rightharpoonup> stop_time_line list) \<Rightarrow>
   nat \<Rightarrow> nat \<Rightarrow> string option \<Rightarrow> trip_line \<Rightarrow> trip"
where
  "build_trip stop_prefix stops by_trip route calendar operator line =
     (let t = \<lparr>trip_pk = None, trip_route = route, trip_calendar = calendar,
                inbound = ((case tl_direction_id line of None \<Rightarrow> 0 | Some d \<Rightarrow> d) = 1),
                headsign = tl_trip_headsign line,
                ticket_machine_code = tl_trip_id line,
                block = block_of (tl_block_id line),
                vehicle_journey_code = tl_trip_short_name line,
                trip_operator = operator,
                trip_start = None, trip_end = None, destination = None\<rparr>
      in case by_trip (tl_trip_id line) of
           None \<Rightarrow> t
         | Some rows \<Rightarrow>
             (let stop_times = sort_key st_stop_sequence rows in
              if stop_times \<noteq> [] then
                (let last_stop = last stop_times;
                     stop_id = apply_prefix stop_prefix (st_stop_id last_stop)
                 in t\<lparr>trip_start := Some (st_departure_time (hd stop_times)),
                      trip_end := Some (st_arrival_time last_stop),
                      destination := (if stops stop_id then Some stop_id else None)\<rparr>)
              else t))"

section \<open>Realtime: vehicle locations\<close>

text \<open>
  The fields of a GTFS-realtime vehicle position that the importers read. In protocol
  buffers an unset scalar reads as its default: \<open>0\<close> for a number, the empty string
  for text.
\<close>

record trip_descriptor =
  td_trip_id :: string
  td_route_id :: string
  td_start_date :: string
  td_start_time :: string
  td_direction_id :: int

record position =
  bearing :: real
  latitude :: real
  longitude :: real

record feed_entity =
  item_trip :: trip_descriptor
  item_position :: position
  item_occupancy_status :: int
  item_vehicle_id :: string

record vehicle_location =
  heading :: "real option"
  latlong :: "real \<times> real"
  occupancy :: "string option"

text \<open>Python's \<open>x or None\<close> on a number: \<open>None\<close> when \<open>x\<close> is zero, else \<open>x\<close>.\<close>

definition or_None :: "'a::zero \<Rightarrow> 'a option" where
  "or_None x = (if x = 0 then None else Some x)"

text \<open>
  The module's table \<open>occupancies\<close>. Its keys are integers; a mapping configured
  through \<open>occupancy_mapping\<close> comes from JSON and has text keys, so the key type is
  \<open>py_val\<close>. \<open>None\<close> is a key of neither.
\<close>

definition occupancies :: "py_val \<rightharpoonup> string" where
  "occupancies = map_of
     [(PyInt 0, ''Empty''),
      (PyInt 1, ''Many seats available''),
      (PyInt 2, ''Few seats available''),
      (PyInt 3, ''Standing room only''),
      (PyInt 4, ''Crushed standing room only''),
      (PyInt 5, ''Full''),
      (PyInt 6, ''Not accepting passengers''),
      (PyInt 7, ''No data available''),
      (PyInt 8, ''Not boardable'')]"

definition dict_get :: "(py_val \<rightharpoonup> string) \<Rightarrow> int option \<Rightarrow> string option" where
  "dict_get d key = (case key of None \<Rightarrow> None | Some k \<Rightarrow> d (PyInt k))"

text \<open>\<open>create_vehicle_location\<close> of \<open>import_gtfsr_worldwide\<close>, with \<open>self.occupancy_mapping\<close>.\<close>

definition create_vehicle_location :: "(py_val \<rightharpoonup> string) \<Rightarrow> feed_entity \<Rightarrow> vehicle_location" where
  "create_vehicle_location occupancy_mapping item =
     \<lparr>heading = or_None (bearing (item_position item)),
      latlong = (longitude (item_position item), latitude (item_position item)),
      occupancy = dict_get occupancy_mapping (or_None (item_occupancy_status item))\<rparr>"

text \<open>\<open>create_vehicle_location\<close> of \<open>import_gtfsr_translink_qld\<close>, with the module's table.\<close>

definition create_vehicle_location_qld :: "feed_entity \<Rightarrow> vehicle_location" where
  "create_vehicle_location_qld item =
     \<lparr>heading = or_None (bearing (item_position item)),
      latlong = (longitude (item_position item), latitude (item_position item)),
      occupancy = dict_get occupancies (or_None (item_occupancy_status item))\<rparr>"

section \<open>Static ingestion: stops\<close>

subsection \<open>\<open>in\<close>, \<open>str.count\<close> and \<open>str.split\<close> with a separator of several characters\<close>

fun contains :: "string \<Rightarrow> string \<Rightarrow> bool" where
  "contains sub [] = (sub = [])"
| "contains sub (c # cs) = (take (length sub) (c # cs) = sub \<or> contains sub cs)"

text \<open>Occurrences are counted without overlap, from the left; the separator is not empty.\<close>

fun count_sub :: "string \<Rightarrow> string \<Rightarrow> nat" where
  "count_sub sub [] = 0"
| "count_sub sub (c # cs) =
     (if sub \<noteq> [] \<and> take (length sub) (c # cs) = sub
      then Suc (count_sub sub (drop (length sub - 1) cs))
      else count_sub sub cs)"

fun split_str :: "string \<Rightarrow> string \<Rightarrow> string list" where
  "split_str sep [] = [[]]"
| "split_str sep (c # cs) =
     (if sep \<noteq> [] \<and> take (length sep) (c # cs) = sep
      then [] # split_str sep (drop (length sep - 1) cs)
      else (case split_str sep cs of
              [] \<Rightarrow> [[c]]
            | p # ps \<Rightarrow> (c # p) # ps))"

subsection \<open>Stop rows and StopPoints\<close>

record stop_line =
  sl_stop_id :: string
  sl_stop_name :: string
  sl_stop_lon :: real
  sl_stop_lat :: real

text \<open>
  A \<open>StopPoint\<close>; its primary key is \<open>atco_code\<close>. \<open>sp_source\<close> is the owning
  DataSource, \<open>sp_latlong\<close> the point (longitude, latitude).
\<close>

record stop_point =
  atco_code :: string
  common_name :: string
  indicator :: string
  sp_latlong :: "real \<times> real"
  locality_centre :: bool
  active :: bool
  sp_source :: "nat option"
  admin_area_id :: "nat option"

text \<open>
  Lines 162 to 179: the candidate built from one feed row. The tuple assignment from
  \<open>split(", ")\<close> raises \<open>ValueError\<close> unless the split has two parts.
\<close>

definition stop_of_line :: "nat \<Rightarrow> string \<Rightarrow> stop_line \<Rightarrow> py_error + stop_point" where
  "stop_of_line source stop_prefix line =
     (let stop = \<lparr>atco_code = apply_prefix stop_prefix (sl_stop_id line),
                   common_name = sl_stop_name line,
                   indicator = [],
                   sp_latlong = (sl_stop_lon line, sl_stop_lat line),
                   locality_centre = False,
                   active = True,
                   sp_source = Some source,
                   admin_area_id = None\<rparr>
      in if contains '', stop'' (common_name stop) \<and> count_sub '', '' (common_name stop) = 1 then
           (case split_str '', '' (common_name stop) of
              [name, ind] \<Rightarrow> Inr (stop\<lparr>common_name := take 48 name, indicator := ind\<rparr>)
            | _ \<Rightarrow> Inl ValueError)
         else Inr (stop\<lparr>common_name := take 48 (common_name stop)\<rparr>))"

text \<open>
  The dictionary \<open>stops\<close>, in insertion order: a later row with the same code replaces
  the value and keeps the place of the first.
\<close>

fun dict_set :: "('k \<times> 'v) list \<Rightarrow> 'k \<Rightarrow> 'v \<Rightarrow> ('k \<times> 'v) list" where
  "dict_set [] k v = [(k, v)]"
| "dict_set ((k', v') # rest) k v =
     (if k' = k then (k, v) # rest else (k', v') # dict_set rest k v)"

fun build_stops ::
  "nat \<Rightarrow> string \<Rightarrow> stop_line list \<Rightarrow> (string \<times> stop_point) list \<Rightarrow>
   py_error + (string \<times> stop_point) list"
where
  "build_stops source stop_prefix [] stops = Inr stops"
| "build_stops source stop_prefix (line # rest) stops =
     (case stop_of_line source stop_prefix line of
        Inl e \<Rightarrow> Inl e
      | Inr stop \<Rightarrow> build_stops source stop_prefix rest (dict_set stops (atco_code stop) stop))"

subsection \<open>The StopPoint table and \<open>do_stops\<close>\<close>

text \<open>
  The part of the database \<open>do_stops\<close> reads and writes: the StopPoint table by
  primary key, the AdminArea table as pairs of an id and the id of its Region, in the
  order the database returns them, and the ids of the Region table.
\<close>

record stop_db =
  stop_points :: "string \<rightharpoonup> stop_point"
  admin_areas :: "(nat \<times> string) list"
  regions :: "string list"

text \<open>
  \<open>bulk_update(stops_to_update, ["common_name", "latlong", "indicator", "source"])\<close>:
  the four fields of each row, found by its primary key, take the values of the object.
\<close>

fun bulk_update :: "stop_point list \<Rightarrow> (string \<rightharpoonup> stop_point) \<Rightarrow> (string \<rightharpoonup> stop_point)" where
  "bulk_update [] table = table"
| "bulk_update (stop # rest) table =
     bulk_update rest
       (case table (atco_code stop) of
          None \<Rightarrow> table
        | Some row \<Rightarrow>
            table(atco_code stop \<mapsto>
              row\<lparr>common_name := common_name stop, sp_latlong := sp_latlong stop,
                  indicator := indicator stop, sp_source := sp_source stop\<rparr>))"

fun bulk_create :: "stop_point list \<Rightarrow> (string \<rightharpoonup> stop_point) \<Rightarrow> (string \<rightharpoonup> stop_point)" where
  "bulk_create [] table = table"
| "bulk_create (stop # rest) table = bulk_create rest (table(atco_code stop \<mapsto> stop))"

text \<open>
  Lines 208 to 230, for one new stop. The dictionary \<open>admin_areas\<close> of the source
  only remembers the answers of \<open>AdminArea.objects.filter(id=...).exists()\<close>, which
  do not change during the loop; the model asks the table each time.
\<close>

definition assign_admin_area :: "string \<Rightarrow> stop_db \<Rightarrow> stop_point \<Rightarrow> stop_point" where
  "assign_admin_area region_handling db stop =
     (let prefix3 = take 3 (atco_code stop) in
      if all_digits prefix3 then
        (if nat (int_of_digits prefix3) \<in> fst ` set (admin_areas db)
         then stop\<lparr>admin_area_id := Some (nat (int_of_digits prefix3))\<rparr>
         else stop)
      else if region_handling \<noteq> [] \<and> region_handling \<noteq> ''auto'' then
        (if region_handling \<in> set (regions db) then
           (case filter (\<lambda>a. snd a = region_handling) (admin_areas db) of
              [] \<Rightarrow> stop
            | a # _ \<Rightarrow> stop\<lparr>admin_area_id := Some (fst a)\<rparr>)
         else stop)
      else stop)"

text \<open>
  \<open>stops_to_update\<close>, lines 191 to 200: the candidates whose code exists, whose
  existing row is owned by this source or by none, and whose coordinates or name differ
  from the existing row.
\<close>

definition needs_update :: "nat \<Rightarrow> (string \<rightharpoonup> stop_point) \<Rightarrow> stop_point \<Rightarrow> bool" where
  "needs_update source existing_stops stop =
     (case existing_stops (atco_code stop) of
        None \<Rightarrow> False
      | Some existing \<Rightarrow>
          (sp_source existing = Some source \<or> sp_source existing = None) \<and>
          (sp_latlong existing \<noteq> sp_latlong stop \<or> common_name existing \<noteq> common_name stop))"

text \<open>
  \<open>do_stops\<close>. The result is the database after the two bulk writes, and either the
  exception or the lookup from stop code to StopPoint that the later phases use. The
  candidates are built before anything is written.
\<close>

definition do_stops ::
  "nat \<Rightarrow> string \<Rightarrow> string \<Rightarrow> stop_line list \<Rightarrow> stop_db \<Rightarrow>
   stop_db \<times> (py_error + (string \<rightharpoonup> stop_point))"
where
  "do_stops source stop_prefix region_handling feed_stops db =
     (case build_stops source stop_prefix feed_stops [] of
        Inl e \<Rightarrow> (db, Inl e)
      | Inr stops \<Rightarrow>
          (let existing_stops = stop_points db |` set (map fst stops);
               stops_to_create = filter (\<lambda>stop. existing_stops (atco_code stop) = None) (map snd stops);
               stops_to_update = filter (needs_update source existing_stops) (map snd stops);
               updated = bulk_update stops_to_update (stop_points db);
               stops_to_create = (if region_handling \<noteq> ''skip''
                                  then map (assign_admin_area region_handling db) stops_to_create
                                  else stops_to_create);
               created = bulk_create stops_to_create updated
           in (db\<lparr>stop_points := created\<rparr>, Inr (created |` set (map fst stops)))))"

section \<open>Static ingestion: route links\<close>

text \<open>
  The result of \<open>shapely.ops.substring\<close>: a \<open>LineString\<close> with its coordinates, or
  a geometry of another type (a \<open>Point\<close> when both distances are equal).
\<close>

datatype geom = LineString "(real \<times> real) list" | Point "real \<times> real" | OtherGeometry

text \<open>
  A \<open>RouteLink\<close>; \<open>rl_id\<close> is \<open>None\<close> for an object not yet stored. The key of a
  link is the triple of its service, from-stop and to-stop.
\<close>

record route_link =
  rl_id :: "nat option"
  rl_service_id :: "nat option"
  rl_from_stop_id :: string
  rl_to_stop_id :: string
  rl_geometry :: "(real \<times> real) list"

type_synonym link_key = "nat option \<times> string \<times> string"



text \<open>Python's \<open>not start_dist\<close>: true for \<open>None\<close> and for the distance 0.\<close>

definition not_dist :: "real option \<Rightarrow> bool" where
  "not_dist d = (d = None \<or> d = Some 0)"

text \<open>
  The body of the inner loop, lines 598 to 633, for the pair \<open>(a, b)\<close>. The state is
  the dictionary \<open>route_links\<close> and the cursor \<open>start_dist\<close>. \<open>stops[...]\<close>
  raises \<open>KeyError\<close> on an unknown stop.
\<close>

definition link_step ::
  "('g \<Rightarrow> real \<times> real \<Rightarrow> real) \<Rightarrow> ('g \<Rightarrow> real \<Rightarrow> real \<Rightarrow> geom) \<Rightarrow>
   string \<Rightarrow> (string \<rightharpoonup> stop_point) \<Rightarrow> (link_key \<rightharpoonup> route_link) \<Rightarrow>
   nat option \<Rightarrow> 'g \<Rightarrow> stop_time_line \<times> stop_time_line \<Rightarrow>
   (link_key \<times> route_link) list \<times> real option \<Rightarrow>
   py_error + ((link_key \<times> route_link) list \<times> real option)"
where
  "link_step project substring stop_prefix stops existing_route_links service geometry pair state =
     (let route_links = fst state;
          start_dist = snd state;
          from_stop_id = apply_prefix stop_prefix (st_stop_id (fst pair));
          to_stop_id = apply_prefix stop_prefix (st_stop_id (snd pair));
          key = (service, from_stop_id, to_stop_id)
      in if key \<in> fst ` set route_links then Inr (route_links, None)
         else
           (case (if not_dist start_dist then
                    (case stops from_stop_id of
                       None \<Rightarrow> Inl KeyError
                     | Some stop_a \<Rightarrow> Inr (project geometry (sp_latlong stop_a)))
                  else Inr (the start_dist)) of
              Inl e \<Rightarrow> Inl e
            | Inr start \<Rightarrow>
                (case stops to_stop_id of
                   None \<Rightarrow> Inl KeyError
                 | Some stop_b \<Rightarrow>
                     (let end_dist = project geometry (sp_latlong stop_b) in
                      case substring geometry start end_dist of
                        LineString coords \<Rightarrow>
                          (let rl = (case existing_route_links key of
                                       Some found \<Rightarrow> found
                                     | None \<Rightarrow>
                                         \<lparr>rl_id = None, rl_service_id = service,
                                          rl_from_stop_id = from_stop_id,
                                          rl_to_stop_id = to_stop_id, rl_geometry = []\<rparr>)
                           in Inr (dict_set route_links key (rl\<lparr>rl_geometry := coords\<rparr>),
                                   Some end_dist))
                      | _ \<Rightarrow> Inr (route_links, Some end_dist)))))"

text \<open>The inner loop over the consecutive pairs of one trip.\<close>

fun link_pairs ::
  "('g \<Rightarrow> real \<times> real \<Rightarrow> real) \<Rightarrow> ('g \<Rightarrow> real \<Rightarrow> real \<Rightarrow> geom) \<Rightarrow>
   string \<Rightarrow> (string \<rightharpoonup> stop_point) \<Rightarrow> (link_key \<rightharpoonup> route_link) \<Rightarrow>
   nat option \<Rightarrow> 'g \<Rightarrow> (stop_time_line \<times> stop_time_line) list \<Rightarrow>
   (link_key \<times> route_link) list \<times> real option \<Rightarrow>
   py_error + ((link_key \<times> route_link) list \<times> real option)"
where
  "link_pairs project substring stop_prefix stops existing service geometry [] state = Inr state"
| "link_pairs project substring stop_prefix stops existing service geometry (pair # rest) state =
     (case link_step project substring stop_prefix stops existing service geometry pair state of
        Inl e \<Rightarrow> Inl e
      | Inr state' \<Rightarrow>
          link_pairs project substring stop_prefix stops existing service geometry rest state')"





section \<open>Static ingestion: operators, services and routes\<close>

subsection \<open>The tables\<close>

text \<open>
  An \<open>Operator\<close> (primary key \<open>noc\<close>), a \<open>Service\<close> with the codes of its
  operators, and a \<open>Route\<close>, which belongs to one source and points to a Service.
\<close>

record operator =
  noc :: string
  op_name :: string
  op_url :: "string option"

record service =
  service_pk :: nat
  service_code :: string
  s_line_name :: string
  s_description :: string
  s_mode :: string
  s_current :: bool
  s_source :: "nat option"
  s_operators :: "string list"

record route =
  route_pk :: nat
  r_source :: nat
  r_code :: string
  r_line_name :: string
  r_description :: string
  r_service :: "nat option"

text \<open>
  The database. Each table is the list of its rows; \<open>next_pk\<close> is the next value of
  the sequences that number new rows (one counter stands for all of them). Every write
  is committed when it is made: the importer opens no transaction.
\<close>

record store =
  db_operators :: "operator list"
  db_services :: "service list"
  db_routes :: "route list"
  db_trips :: "trip list"
  db_stop_times :: "stop_time_row list"
  db_stops :: stop_db
  db_route_links :: "route_link list"
  next_pk :: nat

text \<open>
  The settings of the command (\<open>self.source\<close> and \<open>DataSource.settings["gtfs"]\<close>).
  \<open>cfg_modes\<close> is the table \<open>MODES\<close> of \<open>gtfs_utils\<close>, which is not among the
  sources and is taken as given.
\<close>

record command =
  cfg_source :: nat
  cfg_source_name :: string
  cfg_agency_prefix :: string
  cfg_stop_prefix :: string
  cfg_operator_noc :: string
  cfg_default_operator :: string
  cfg_operator_matching :: string
  cfg_region_handling :: string
  cfg_skip_route_links :: bool
  cfg_handle_agencies :: bool
  cfg_modes :: "int \<rightharpoonup> string"

text \<open>
  The dictionaries of one run: \<open>self.operators\<close> (agency key to operator code),
  \<open>self.routes\<close> (feed route id to Route), \<open>self.route_operators\<close> and the keys of
  \<open>self.services\<close>.
\<close>

record run =
  run_operators :: "(string \<times> string) list"
  run_routes :: "(string \<times> route) list"
  run_route_operators :: "(string \<times> string option) list"
  run_services :: "nat list"

text \<open>
  One row of \<open>feed.routes\<close>. A name that is not a \<open>str\<close> (an empty cell) is
  \<open>None\<close>, as is an agency id whose column or cell is missing.
\<close>

record route_line =
  rt_route_id :: string
  rt_route_short_name :: "string option"
  rt_route_long_name :: "string option"
  rt_agency_id :: "string option"
  rt_route_type :: int

subsection \<open>\<open>handle_route\<close>: names and operator\<close>

text \<open>Lines 244 to 250.\<close>

definition derive_names :: "route_line \<Rightarrow> string \<times> string" where
  "derive_names line =
     (let line_name = (case rt_route_short_name line of Some n \<Rightarrow> n | None \<Rightarrow> []);
          description = (case rt_route_long_name line of Some d \<Rightarrow> d | None \<Rightarrow> [])
      in if line_name = [] \<and> CHR '' '' \<notin> set description then
           (if length description < 5 then (description, []) else (description, description))
         else (line_name, description))"

text \<open>Lines 253 to 270: the agency id of the row, and the operator of the run it names.\<close>

definition resolve_operator :: "command \<Rightarrow> run \<Rightarrow> route_line \<Rightarrow> string option" where
  "resolve_operator cmd r line =
     (let agency_id = rt_agency_id line;
          agency_id = (case agency_id of
                         Some a \<Rightarrow> (if cfg_agency_prefix cmd \<noteq> [] \<and> a \<noteq> []
                                    then Some (cfg_agency_prefix cmd @ a) else Some a)
                       | None \<Rightarrow> None);
          agency_id = (if agency_id = None \<or> agency_id = Some [] then
                         (case run_operators r of
                            [only] \<Rightarrow> Some (fst only)
                          | _ \<Rightarrow> (if cfg_default_operator cmd \<noteq> []
                                  then Some (cfg_default_operator cmd) else agency_id))
                       else agency_id)
      in case agency_id of
           None \<Rightarrow> None
         | Some a \<Rightarrow> (if a \<noteq> [] then map_of (run_operators r) a else None))"

subsection \<open>\<open>handle_route\<close>: the search for an existing Service\<close>

definition upper_char :: "char \<Rightarrow> char" where
  "upper_char c =
     (if 97 \<le> (of_char c :: nat) \<and> (of_char c :: nat) \<le> 122
      then char_of ((of_char c :: nat) - 32) else c)"

text \<open>\<open>line_name__iexact\<close>: equality of the upper-cased texts.\<close>

definition iexact :: "string \<Rightarrow> string \<Rightarrow> bool" where
  "iexact a b = (map upper_char a = map upper_char b)"

text \<open>
  \<open>Service.objects.filter(operator=operator)\<close>: the services that have the operator,
  or, for \<open>None\<close>, the services that have no operator.
\<close>

definition of_operator :: "string option \<Rightarrow> service \<Rightarrow> bool" where
  "of_operator operator s =
     (case operator of None \<Rightarrow> s_operators s = [] | Some p \<Rightarrow> p \<in> set (s_operators s))"

text \<open>The three parts of the query \<open>q\<close>, lines 273 to 280.\<close>

definition has_route_with_code :: "store \<Rightarrow> string \<Rightarrow> service \<Rightarrow> bool" where
  "has_route_with_code st route_id s =
     list_ex (\<lambda>rt. r_code rt = route_id \<and> r_service rt = Some (service_pk s)) (db_routes st)"

definition has_service_code :: "string \<Rightarrow> service \<Rightarrow> bool" where
  "has_service_code route_id s = (service_code s = route_id)"

definition name_or_description :: "string \<Rightarrow> string \<Rightarrow> service \<Rightarrow> bool" where
  "name_or_description line_name description s =
     (if line_name \<noteq> [] \<and> line_name \<notin> set [''rail'', ''InterCity'']
      then iexact (s_line_name s) line_name
      else if description \<noteq> [] then s_description s = description
      else False)"

definition q :: "store \<Rightarrow> string \<Rightarrow> string \<Rightarrow> string \<Rightarrow> service \<Rightarrow> bool" where
  "q st route_id line_name description s =
     (has_route_with_code st route_id s \<or> has_service_code route_id s \<or>
      name_or_description line_name description s)"

text \<open>\<open>services.filter(q).order_by("id").first()\<close>.\<close>

definition find_service ::
  "store \<Rightarrow> string option \<Rightarrow> string \<Rightarrow> string \<Rightarrow> string \<Rightarrow> service option"
where
  "find_service st operator route_id line_name description =
     (case sort_key service_pk
             (filter (\<lambda>s. of_operator operator s \<and> q st route_id line_name description s)
                (db_services st)) of
        [] \<Rightarrow> None
      | s # _ \<Rightarrow> Some s)"

subsection \<open>\<open>handle_route\<close>: the writes\<close>

text \<open>\<open>service.save()\<close>: a Service without a row yet is inserted, else its row is replaced.\<close>

fun replace_service :: "service \<Rightarrow> service list \<Rightarrow> service list" where
  "replace_service s [] = []"
| "replace_service s (row # table) =
     (if service_pk row = service_pk s then s # table else row # replace_service s table)"

fun replace_route :: "route \<Rightarrow> route list \<Rightarrow> route list" where
  "replace_route rt [] = []"
| "replace_route rt (row # table) =
     (if route_pk row = route_pk rt then rt # table else row # replace_route rt table)"

text \<open>
  \<open>route.trip_set.all().delete()\<close>: the Trips of the Route are deleted.
  Modelled from the spec: the models \<open>Trip\<close> and \<open>StopTime\<close> are not among the
  sources; by the spec's data model a StopTime is replaced only through the deletion of
  its Trip, so the deletion of a Trip takes its StopTimes with it.
\<close>

definition delete_trips_of_route :: "nat \<Rightarrow> store \<Rightarrow> store" where
  "delete_trips_of_route rid st =
     (let deleted = map trip_pk (filter (\<lambda>t. trip_route t = rid) (db_trips st))
      in st\<lparr>db_trips := filter (\<lambda>t. trip_route t \<noteq> rid) (db_trips st),
             db_stop_times := filter (\<lambda>row. Some (row_trip_pk row) \<notin> set deleted) (db_stop_times st)\<rparr>)"

text \<open>
  Lines 270 to 302 of \<open>handle_route\<close>: the Service of the row is found or made, its
  fields are set and it is saved, and the operator is attached. The result is the
  database, the run with the Service noted in \<open>self.services\<close>, the Service and the
  operator.
\<close>

definition save_service ::
  "command \<Rightarrow> route_line \<Rightarrow> run \<Rightarrow> store \<Rightarrow> store \<times> run \<times> service \<times> string option"
where
  "save_service cmd line r st =
     (let line_name = fst (derive_names line);
          description = snd (derive_names line);
          operator = resolve_operator cmd r line;
          found = find_service st operator (rt_route_id line) line_name description;
          svc = (case found of
                   Some s \<Rightarrow> s
                 | None \<Rightarrow>
                     \<lparr>service_pk = next_pk st, service_code = [], s_line_name = [],
                      s_description = [], s_mode = [], s_current = True,
                      s_source = Some (cfg_source cmd), s_operators = []\<rparr>);
          svc = svc\<lparr>service_code := rt_route_id line, s_line_name := line_name,
                    s_description := description,
                    s_mode := (case cfg_modes cmd (rt_route_type line) of
                                 Some m \<Rightarrow> m | None \<Rightarrow> s_mode svc),
                    s_current := True, s_source := Some (cfg_source cmd)\<rparr>;
          svc = (case operator of
                   None \<Rightarrow> svc
                 | Some p \<Rightarrow>
                     (if service_pk svc \<in> set (run_services r)
                      then (if p \<in> set (s_operators svc) then svc
                            else svc\<lparr>s_operators := s_operators svc @ [p]\<rparr>)
                      else svc\<lparr>s_operators := [p]\<rparr>))
      in ((case found of
             Some s \<Rightarrow> st\<lparr>db_services := replace_service svc (db_services st)\<rparr>
           | None \<Rightarrow> st\<lparr>db_services := db_services st @ [svc], next_pk := Suc (next_pk st)\<rparr>),
          r\<lparr>run_services := (if service_pk svc \<in> set (run_services r) then run_services r
                                else run_services r @ [service_pk svc])\<rparr>,
          svc, operator))"

text \<open>
  Lines 304 to 316: \<open>Route.objects.update_or_create\<close> by source and code, the deletion
  of the Trips of a Route that existed, and the two dictionaries. Several Routes with
  the source and the code raise \<open>MultipleObjectsReturned\<close>.
\<close>

definition update_or_create_route ::
  "command \<Rightarrow> route_line \<Rightarrow> service \<Rightarrow> string option \<Rightarrow> run \<Rightarrow> store \<Rightarrow>
   store \<times> (py_error + run)"
where
  "update_or_create_route cmd line svc operator r st =
     (case filter (\<lambda>rt. r_source rt = cfg_source cmd \<and> r_code rt = rt_route_id line)
             (db_routes st) of
        [] \<Rightarrow>
          (let rt = \<lparr>route_pk = next_pk st, r_source = cfg_source cmd,
                     r_code = rt_route_id line, r_line_name = s_line_name svc,
                     r_description = s_description svc, r_service = Some (service_pk svc)\<rparr>
           in (st\<lparr>db_routes := db_routes st @ [rt], next_pk := Suc (next_pk st)\<rparr>,
               Inr (r\<lparr>run_routes := dict_set (run_routes r) (rt_route_id line) rt,
                      run_route_operators :=
                        dict_set (run_route_operators r) (rt_route_id line) operator\<rparr>)))
      | [existing] \<Rightarrow>
          (let rt = existing\<lparr>r_line_name := s_line_name svc,
                             r_description := s_description svc,
                             r_service := Some (service_pk svc)\<rparr>
           in (delete_trips_of_route (route_pk rt)
                 (st\<lparr>db_routes := replace_route rt (db_routes st)\<rparr>),
               Inr (r\<lparr>run_routes := dict_set (run_routes r) (rt_route_id line) rt,
                      run_route_operators :=
                        dict_set (run_route_operators r) (rt_route_id line) operator\<rparr>)))
      | _ \<Rightarrow> (st, Inl MultipleObjectsReturned))"

text \<open>
  \<open>handle_route\<close>. The result is the database as the function leaves it, with the
  exception raised or the dictionaries of the run; when \<open>update_or_create\<close> raises,
  the Service has been saved already.
\<close>

definition handle_route :: "command \<Rightarrow> route_line \<Rightarrow> run \<Rightarrow> store \<Rightarrow> store \<times> (py_error + run)" where
  "handle_route cmd line r st =
     (case save_service cmd line r st of
        (st1, r1, svc, operator) \<Rightarrow> update_or_create_route cmd line svc operator r1 st1)"

subsection \<open>Integrity of the keys\<close>

text \<open>
  What the database guarantees about primary and foreign keys: the ids of the Routes are
  distinct, and no Route and no Trip's Route has an id that the sequence has yet to give.
\<close>

definition store_ok :: "store \<Rightarrow> bool" where
  "store_ok st =
     (distinct (map route_pk (db_routes st)) \<and>
      list_all (\<lambda>rt. route_pk rt < next_pk st) (db_routes st) \<and>
      list_all (\<lambda>t. trip_route t < next_pk st) (db_trips st))"

section \<open>Realtime: the journey of a report\<close>

subsection \<open>Dates and datetimes\<close>

text \<open>
  A \<open>datetime\<close> is its count of seconds since the start of year 1 of the proleptic
  Gregorian calendar, as the wall clock shows it, with the time zone attached to it, if
  any. \<open>replace(tzinfo=...)\<close> attaches a zone and leaves the wall clock as it is.
\<close>

record py_datetime =
  dt_seconds :: int
  dt_tzinfo :: "string option"

definition is_leap :: "int \<Rightarrow> bool" where
  "is_leap y = (y mod 4 = 0 \<and> (y mod 100 \<noteq> 0 \<or> y mod 400 = 0))"

definition days_in_month :: "int \<Rightarrow> int \<Rightarrow> int" where
  "days_in_month y m =
     (if m = 2 then (if is_leap y then 29 else 28)
      else if m \<in> {4, 6, 9, 11} then 30 else 31)"

definition days_before_year :: "int \<Rightarrow> int" where
  "days_before_year y = 365 * (y - 1) + (y - 1) div 4 - (y - 1) div 100 + (y - 1) div 400"

definition days_before_month :: "int \<Rightarrow> int \<Rightarrow> int" where
  "days_before_month y m = sum_list (map (days_in_month y) [1..m - 1])"

text \<open>\<open>date.toordinal()\<close>, counted from 0 for the first of January of year 1.\<close>

definition ordinal :: "int \<Rightarrow> int \<Rightarrow> int \<Rightarrow> int" where
  "ordinal y m d = days_before_year y + days_before_month y m + (d - 1)"

text \<open>
  The month and day in the digits that follow the year, as the pattern of
  \<open>%m%d\<close> reads them: the month is \<open>1[0-2]\<close>, else \<open>0[1-9]\<close>, else one digit
  \<open>[1-9]\<close>, the first of these for which the rest is a day \<open>3[01]\<close>,
  \<open>[12][0-9]\<close>, \<open>0[1-9]\<close> or \<open>[1-9]\<close>.
\<close>

definition day_of :: "string \<Rightarrow> int option" where
  "day_of s =
     (case s of
        [a, b] \<Rightarrow>
          (if a = CHR ''3'' \<and> b \<in> set ''01'' then Some (30 + digit_val b)
           else if a \<in> set ''12'' \<and> is_digit b then Some (10 * digit_val a + digit_val b)
           else if a = CHR ''0'' \<and> b \<in> set ''123456789'' then Some (digit_val b)
           else None)
      | [a] \<Rightarrow> (if a \<in> set ''123456789'' then Some (digit_val a) else None)
      | _ \<Rightarrow> None)"

definition month_day_of :: "string \<Rightarrow> (int \<times> int) option" where
  "month_day_of s =
     (let two = (case s of
                   a # b # rest \<Rightarrow>
                     (if a = CHR ''1'' \<and> b \<in> set ''012'' then
                        map_option (Pair (10 + digit_val b)) (day_of rest)
                      else if a = CHR ''0'' \<and> b \<in> set ''123456789'' then
                        map_option (Pair (digit_val b)) (day_of rest)
                      else None)
                 | _ \<Rightarrow> None)
      in case two of
           Some md \<Rightarrow> Some md
         | None \<Rightarrow>
             (case s of
                a # rest \<Rightarrow>
                  (if a \<in> set ''123456789'' then map_option (Pair (digit_val a)) (day_of rest)
                   else None)
              | [] \<Rightarrow> None))"

text \<open>
  \<open>datetime.strptime(f"{start_date} 12:00:00", "%Y%m%d %H:%M:%S")\<close>: noon of the
  day \<open>start_date\<close> names, or \<open>ValueError\<close>. The year is four digits and at least
  1, and the day exists in its month. A \<open>start_date\<close> with a character other than a
  decimal digit is taken to raise (the library accepts a few such texts with blanks).
\<close>

definition strptime_noon :: "string \<Rightarrow> py_error + py_datetime" where
  "strptime_noon start_date =
     (if length start_date \<ge> 4 \<and> list_all is_digit start_date then
        (let y = int_of_digits (take 4 start_date) in
         case month_day_of (drop 4 start_date) of
           None \<Rightarrow> Inl ValueError
         | Some md \<Rightarrow>
             (if 1 \<le> y \<and> snd md \<le> days_in_month y (fst md) then
                Inr \<lparr>dt_seconds = 86400 * ordinal y (fst md) (snd md) + 43200, dt_tzinfo = None\<rparr>
              else Inl ValueError))
      else Inl ValueError)"

text \<open>
  \<open>(start_date + start_time - timedelta(hours=12)).replace(tzinfo=self.tzinfo)\<close>,
  where \<open>start_time\<close> is the result of \<open>parse_duration\<close>: adding \<open>None\<close> to a
  \<open>datetime\<close> raises \<open>TypeError\<close>.
\<close>

definition start_date_time :: "string \<Rightarrow> py_datetime \<Rightarrow> int option \<Rightarrow> py_error + py_datetime" where
  "start_date_time tzinfo start_date start_time =
     (case start_time of
        None \<Rightarrow> Inl TypeError
      | Some seconds \<Rightarrow>
          Inr \<lparr>dt_seconds = dt_seconds start_date + seconds - 12 * 3600, dt_tzinfo = Some tzinfo\<rparr>)"

subsection \<open>Vehicles and journeys\<close>

record vehicle_journey =
  vj_id :: "nat option"
  vj_code :: string
  vj_datetime :: "py_datetime option"
  vj_service :: "nat option"
  vj_trip :: "nat option"
  vj_destination :: string
  vj_route_name :: string

text \<open>
  A \<open>Vehicle\<close> with its cached latest journey and the raw payload of the report that
  made it.
\<close>

record vehicle =
  v_code :: string
  v_operator_id :: "string option"
  latest_journey :: "vehicle_journey option"
  latest_journey_data :: "feed_entity option"

text \<open>
  The settings of a realtime importer: the source, its time zone and the current wall
  clock time in that zone (what \<open>datetime.now(self.tzinfo)\<close> gives), and the
  collaborator \<open>get_calendars\<close> of \<open>bustimes.utils\<close>, which is not among the
  sources: from a date and calendar ids it gives the ids that run on that date.
\<close>

record live_command =
  live_source :: nat
  live_tzinfo :: string
  live_now :: int
  live_get_calendars :: "py_datetime \<Rightarrow> nat list \<Rightarrow> nat list"

text \<open>\<open>VehicleJourney(code=...)\<close>: the new, unsaved journey.\<close>

definition new_journey :: "string \<Rightarrow> vehicle_journey" where
  "new_journey code =
     \<lparr>vj_id = None, vj_code = code, vj_datetime = None, vj_service = None, vj_trip = None,
      vj_destination = [], vj_route_name = []\<rparr>"

subsection \<open>The queries of \<open>get_journey\<close>\<close>

text \<open>The Routes of a Service, and the Route of a Trip.\<close>

definition routes_of :: "store \<Rightarrow> service \<Rightarrow> route list" where
  "routes_of st s = filter (\<lambda>rt. r_service rt = Some (service_pk s)) (db_routes st)"

definition route_of_trip :: "store \<Rightarrow> trip \<Rightarrow> route option" where
  "route_of_trip st t = find (\<lambda>rt. route_pk rt = trip_route t) (db_routes st)"

text \<open>
  \<open>Service.objects.filter(current=True, route__source=..., route__code=...).distinct()\<close>
\<close>

definition services_by_route_code :: "store \<Rightarrow> nat \<Rightarrow> string \<Rightarrow> service list" where
  "services_by_route_code st source code =
     filter (\<lambda>s. s_current s \<and>
                  list_ex (\<lambda>rt. r_source rt = source \<and> r_code rt = code) (routes_of st s))
       (db_services st)"

text \<open>
  \<open>Service.objects.filter(current=True, route__source=...,
  route__trip__ticket_machine_code=...).distinct()\<close>
\<close>

definition services_by_trip_code :: "store \<Rightarrow> nat \<Rightarrow> string \<Rightarrow> service list" where
  "services_by_trip_code st source code =
     filter (\<lambda>s. s_current s \<and>
                  list_ex (\<lambda>rt. r_source rt = source \<and>
                                 list_ex (\<lambda>t. trip_route t = route_pk rt \<and>
                                               ticket_machine_code t = code) (db_trips st))
                    (routes_of st s))
       (db_services st)"

text \<open>\<open>trips.filter(route__service=service)\<close> and \<open>trips.filter(route__source=...)\<close>.\<close>

definition trip_of_service :: "store \<Rightarrow> service \<Rightarrow> trip \<Rightarrow> bool" where
  "trip_of_service st s t =
     (case route_of_trip st t of
        None \<Rightarrow> False
      | Some rt \<Rightarrow> r_service rt = Some (service_pk s))"

definition trip_of_source :: "store \<Rightarrow> nat \<Rightarrow> trip \<Rightarrow> bool" where
  "trip_of_source st source t =
     (case route_of_trip st t of None \<Rightarrow> False | Some rt \<Rightarrow> r_source rt = source)"

text \<open>
  \<open>Service.objects.filter(route__source=..., route__code__endswith=...).get()\<close>: the
  join has one row for each Route that matches, and \<open>get\<close> wants exactly one row;
  \<open>DoesNotExist\<close> and \<open>MultipleObjectsReturned\<close> are caught and leave the
  service as it was.
\<close>

definition ends_with :: "string \<Rightarrow> string \<Rightarrow> bool" where
  "ends_with suffix s = (length suffix \<le> length s \<and> drop (length s - length suffix) s = suffix)"

definition service_by_suffix :: "store \<Rightarrow> nat \<Rightarrow> string \<Rightarrow> service option" where
  "service_by_suffix st source suffix =
     (case concat (map (\<lambda>s. map (\<lambda>rt. s)
                              (filter (\<lambda>rt. r_source rt = source \<and> ends_with suffix (r_code rt))
                                 (routes_of st s)))
                     (db_services st)) of
        [s] \<Rightarrow> Some s
      | _ \<Rightarrow> None)"

text \<open>\<open>route_suffix\<close>: the route id after its first underscore, if it has one.\<close>

definition route_suffix_of :: "string \<Rightarrow> string" where
  "route_suffix_of route_id =
     (if CHR ''_'' \<in> set route_id then tl (dropWhile (\<lambda>c. c \<noteq> CHR ''_'') route_id)
      else route_id)"

text \<open>
  A Trip's \<open>start\<close> against a duration in seconds. The Trip holds the time text that
  the static importer gave it.
\<close>

definition trip_starts_at :: "int \<Rightarrow> trip \<Rightarrow> bool" where
  "trip_starts_at seconds t =
     (case trip_start t of None \<Rightarrow> False | Some s \<Rightarrow> parse_duration s = Some seconds)"

text \<open>
  Lines 172 to 190, the same in both importers: the journey takes the service and the
  trip that were found, the vehicle adopts the trip's operator if it has none, and the
  report is kept on the vehicle.
\<close>

definition fill_journey ::
  "store \<Rightarrow> feed_entity \<Rightarrow> vehicle \<Rightarrow> vehicle_journey \<Rightarrow> service option \<Rightarrow> trip option \<Rightarrow>
   vehicle_journey \<times> vehicle"
where
  "fill_journey st item v journey svc trp =
     (let journey = (case svc of
                       Some s \<Rightarrow> journey\<lparr>vj_service := Some (service_pk s)\<rparr>
                     | None \<Rightarrow> journey);
          journey = (case trp of
                       None \<Rightarrow> journey
                     | Some t \<Rightarrow>
                         (if vj_service journey = None
                          then journey\<lparr>vj_service := (case route_of_trip st t of
                                                         Some rt \<Rightarrow> r_service rt
                                                       | None \<Rightarrow> None)\<rparr>
                          else journey)
                         \<lparr>vj_trip := trip_pk t, vj_destination := headsign t\<rparr>);
          v = (case trp of
                 None \<Rightarrow> v
               | Some t \<Rightarrow>
                   (if trip_operator t \<noteq> None \<and> trip_operator t \<noteq> Some []
                       \<and> (v_operator_id v = None \<or> v_operator_id v = Some [])
                    then v\<lparr>v_operator_id := trip_operator t\<rparr> else v));
          journey = (case vj_service journey of
                       None \<Rightarrow> journey
                     | Some pk \<Rightarrow>
                         (case find (\<lambda>s. service_pk s = pk) (db_services st) of
                            Some s \<Rightarrow> journey\<lparr>vj_route_name := s_line_name s\<rparr>
                          | None \<Rightarrow> journey))
      in (journey, v\<lparr>latest_journey_data := Some item\<rparr>))"

subsection \<open>\<open>get_journey\<close> of \<open>import_gtfsr_worldwide\<close>\<close>

text \<open>
  The trips that carry the journey's code, within the service found or else within the
  source (lines 135 to 139 of \<open>import_gtfsr_worldwide\<close>).
\<close>

definition trips_by_code :: "store \<Rightarrow> nat \<Rightarrow> string \<Rightarrow> service option \<Rightarrow> trip list" where
  "trips_by_code st source code svc =
     filter (\<lambda>t. ticket_machine_code t = code \<and>
                  (case svc of Some s \<Rightarrow> trip_of_service st s t
                             | None \<Rightarrow> trip_of_source st source t))
       (db_trips st)"

text \<open>
  Lines 163 to 170: one trip is taken as it is; among several, the first whose calendar
  runs on the date, if any.
\<close>

definition pick_trip :: "live_command \<Rightarrow> py_datetime \<Rightarrow> trip list \<Rightarrow> trip option" where
  "pick_trip cmd start_date trips =
     (case trips of
        [] \<Rightarrow> None
      | [t] \<Rightarrow> Some t
      | _ \<Rightarrow>
          (let calendars = live_get_calendars cmd start_date (map trip_calendar trips)
           in case filter (\<lambda>t. trip_calendar t \<in> set calendars) trips of
                [] \<Rightarrow> None
              | t # _ \<Rightarrow> Some t))"

text \<open>
  The function starts by reading the date and the time of the report, before it looks at
  the vehicle's cached journey; either reading can raise.
\<close>

definition get_journey ::
  "live_command \<Rightarrow> store \<Rightarrow> feed_entity \<Rightarrow> vehicle \<Rightarrow> py_error + (vehicle_journey \<times> vehicle)"
where
  "get_journey cmd st item v =
     (case strptime_noon (td_start_date (item_trip item)) of
        Inl e \<Rightarrow> Inl e
      | Inr start_date \<Rightarrow>
          (let start_time = parse_duration (td_start_time (item_trip item)) in
           case start_date_time (live_tzinfo cmd) start_date start_time of
             Inl e \<Rightarrow> Inl e
           | Inr sdt \<Rightarrow>
               (let journey = new_journey (td_trip_id (item_trip item)) in
                if (case latest_journey v of
                      Some latest \<Rightarrow> vj_code latest = vj_code journey
                    | None \<Rightarrow> False)
                then Inr (the (latest_journey v), v)
                else
                  (let journey = journey\<lparr>vj_datetime := Some sdt\<rparr>;
                       services = services_by_route_code st (live_source cmd)
                                    (td_route_id (item_trip item));
                       services = (if services = []
                                   then services_by_trip_code st (live_source cmd) (vj_code journey)
                                   else services);
                       svc = (case services of [] \<Rightarrow> None | s # _ \<Rightarrow> Some s);
                       trips = trips_by_code st (live_source cmd) (vj_code journey) svc;
                       fallback = (trips = [] \<and> svc = None \<and> CHR ''_'' \<in> set (vj_code journey));
                       svc = (if fallback
                              then service_by_suffix st (live_source cmd)
                                     (CHR ''_'' # route_suffix_of (td_route_id (item_trip item)))
                              else svc);
                       trips = (if fallback
                                then filter (\<lambda>t. trip_of_source st (live_source cmd) t \<and>
                                                 trip_starts_at (the start_time) t \<and>
                                                 inbound t = (td_direction_id (item_trip item) = 1) \<and>
                                                 (case svc of Some s \<Rightarrow> trip_of_service st s t
                                                            | None \<Rightarrow> True))
                                       (db_trips st)
                                else trips)
                   in Inr (fill_journey st item v journey svc (pick_trip cmd start_date trips))))))"

subsection \<open>\<open>get_journey\<close> of \<open>import_gtfsr_translink_qld\<close>\<close>

text \<open>
  Here the cached journey is looked at first, and the date and time are read only when
  the report has both; without them the journey is dated now. A \<open>timedelta\<close> of zero
  is false, so a start time of 00:00:00 is not used to find trips.
\<close>

definition get_journey_qld ::
  "live_command \<Rightarrow> store \<Rightarrow> feed_entity \<Rightarrow> vehicle \<Rightarrow> py_error + (vehicle_journey \<times> vehicle)"
where
  "get_journey_qld cmd st item v =
     (let journey = new_journey (td_trip_id (item_trip item)) in
      if (case latest_journey v of
            Some latest \<Rightarrow> vj_code latest = vj_code journey
          | None \<Rightarrow> False)
      then Inr (the (latest_journey v), v)
      else
        (let has_schedule_data = (td_start_date (item_trip item) \<noteq> [] \<and>
                                  td_start_time (item_trip item) \<noteq> [])
         in case (if has_schedule_data then
                    (case strptime_noon (td_start_date (item_trip item)) of
                       Inl e \<Rightarrow> Inl e
                     | Inr start_date \<Rightarrow>
                         (case start_date_time (live_tzinfo cmd) start_date
                                 (parse_duration (td_start_time (item_trip item))) of
                            Inl e \<Rightarrow> Inl e
                          | Inr sdt \<Rightarrow> Inr (sdt, Some start_date)))
                  else Inr (\<lparr>dt_seconds = live_now cmd, dt_tzinfo = Some (live_tzinfo cmd)\<rparr>, None)) of
              Inl e \<Rightarrow> Inl e
            | Inr dated \<Rightarrow>
                (let journey = journey\<lparr>vj_datetime := Some (fst dated)\<rparr>;
                     start_date = snd dated;
                     start_time = (if has_schedule_data
                                   then parse_duration (td_start_time (item_trip item)) else None);
                     services = services_by_route_code st (live_source cmd)
                                  (td_route_id (item_trip item));
                     services = (if services = []
                                 then services_by_trip_code st (live_source cmd) (vj_code journey)
                                 else services);
                     svc = (case services of [] \<Rightarrow> None | s # _ \<Rightarrow> Some s);
                     trips = trips_by_code st (live_source cmd) (vj_code journey) svc;
                     fallback = (trips = [] \<and> svc = None \<and> CHR ''_'' \<in> set (vj_code journey));
                     svc = (if fallback
                            then service_by_suffix st (live_source cmd)
                                   (CHR ''_'' # route_suffix_of (td_route_id (item_trip item)))
                            else svc);
                     trips = (if fallback
                              then filter (\<lambda>t. trip_of_source st (live_source cmd) t \<and>
                                               (if has_schedule_data \<and> start_time \<noteq> None
                                                   \<and> start_time \<noteq> Some 0
                                                then trip_starts_at (the start_time) t \<and>
                                                     inbound t = (td_direction_id (item_trip item) = 1)
                                                else True) \<and>
                                               (case svc of Some s \<Rightarrow> trip_of_service st s t
                                                          | None \<Rightarrow> True))
                                     (db_trips st)
                              else trips);
                     trp = (case start_date of
                              Some d \<Rightarrow> pick_trip cmd d trips
                            | None \<Rightarrow> (case trips of [] \<Rightarrow> None | t # _ \<Rightarrow> Some t))
                 in Inr (fill_journey st item v journey svc trp))))"

section \<open>Static ingestion: the run\<close>

subsection \<open>\<open>handle_operator\<close>\<close>







subsection \<open>The phases of \<open>handle_zipfile\<close>\<close>















subsection \<open>\<open>handle_zipfile\<close>\<close>


section \<open>Concrete inputs\<close>

text \<open>Feed rows used to evaluate the importer on concrete inputs.\<close>

definition mk_stop_time :: "string \<Rightarrow> string \<Rightarrow> int \<Rightarrow> string \<Rightarrow> string \<Rightarrow> stop_time_line" where
  "mk_stop_time tid sid sq arr dep =
     \<lparr>st_trip_id = tid, st_stop_id = sid, st_stop_sequence = sq, st_arrival_time = arr,
      st_departure_time = dep, st_timepoint = None, st_pickup_type = None, st_drop_off_type = None\<rparr>"

definition mk_trip_line :: "string \<Rightarrow> string \<Rightarrow> string \<Rightarrow> trip_line" where
  "mk_trip_line rid sid tid =
     \<lparr>tl_route_id = rid, tl_service_id = sid, tl_trip_id = tid, tl_direction_id = None,
      tl_trip_headsign = [], tl_block_id = None, tl_trip_short_name = []\<rparr>"

definition spec_rows :: "stop_time_line list" where
  "spec_rows =
     [mk_stop_time ''T1'' ''A'' 1 ''08:00:00'' ''08:00:00'',
      mk_stop_time ''T1'' ''B'' 2 ''08:05:00'' ''08:05:00'',
      mk_stop_time ''T1'' ''C'' 3 ''08:10:00'' ''08:12:00'']"

definition shuffled_rows :: "stop_time_line list" where
  "shuffled_rows =
     [mk_stop_time ''T2'' ''X'' 1 ''07:00:00'' ''07:00:00'',
      mk_stop_time ''T1'' ''C'' 30 ''09:40:00'' ''09:45:00'',
      mk_stop_time ''T1'' ''A'' 10 ''09:00:00'' ''09:01:00'',
      mk_stop_time ''T1'' ''B'' 20 ''09:20:00'' ''09:21:00'']"


text \<open>A report of an empty vehicle heading due north: bearing 0, occupancy status 0.\<close>

definition parked_item :: feed_entity where
  "parked_item =
     \<lparr>item_trip = \<lparr>td_trip_id = ''T1'', td_route_id = ''R1'', td_start_date = ''20240115'',
                    td_start_time = ''08:00:00'', td_direction_id = 0\<rparr>,
      item_position = \<lparr>bearing = 0, latitude = -27, longitude = 153\<rparr>,
      item_occupancy_status = 0,
      item_vehicle_id = ''A7393_2264''\<rparr>"

text \<open>
  A stop owned by source 2, and a feed row of source 1 that gives the same prefixed code
  other coordinates and another name.
\<close>

definition foreign_stop :: stop_point where
  "foreign_stop =
     \<lparr>atco_code = ''p-1'', common_name = ''High Street'', indicator = [],
      sp_latlong = (153, -27), locality_centre = False, active = True,
      sp_source = Some 2, admin_area_id = None\<rparr>"

definition foreign_db :: stop_db where
  "foreign_db =
     \<lparr>stop_points = [''p-1'' \<mapsto> foreign_stop], admin_areas = [], regions = []\<rparr>"

definition moved_stop_line :: stop_line where
  "moved_stop_line =
     \<lparr>sl_stop_id = ''1'', sl_stop_name = ''Market Square'', sl_stop_lon = 151, sl_stop_lat = -33\<rparr>"

text \<open>
  A shape along the line \<open>y = 0\<close>: a point projects to its first coordinate, and the
  substring between two distances is a line, or a point when they are equal. Stops A and B
  share their coordinates; stop C lies further along.
\<close>

definition line_project :: "unit \<Rightarrow> real \<times> real \<Rightarrow> real" where
  "line_project g p = fst p"

definition line_substring :: "unit \<Rightarrow> real \<Rightarrow> real \<Rightarrow> geom" where
  "line_substring g s e = (if s = e then Point (s, 0) else LineString [(s, 0), (e, 0)])"

definition mk_stop :: "string \<Rightarrow> real \<Rightarrow> real \<Rightarrow> stop_point" where
  "mk_stop code lon lat =
     \<lparr>atco_code = code, common_name = code, indicator = [], sp_latlong = (lon, lat),
      locality_centre = False, active = True, sp_source = Some 1, admin_area_id = None\<rparr>"

definition line_stops :: "string \<rightharpoonup> stop_point" where
  "line_stops = [''p-A'' \<mapsto> mk_stop ''p-A'' 1 0, ''p-B'' \<mapsto> mk_stop ''p-B'' 1 0,
                 ''p-C'' \<mapsto> mk_stop ''p-C'' 5 0]"

definition row_A :: stop_time_line where
  "row_A = mk_stop_time ''T1'' ''A'' 1 ''08:00:00'' ''08:00:00''"

definition row_B :: stop_time_line where
  "row_B = mk_stop_time ''T1'' ''B'' 2 ''08:05:00'' ''08:05:00''"

definition row_C :: stop_time_line where
  "row_C = mk_stop_time ''T1'' ''C'' 3 ''08:10:00'' ''08:12:00''"

text \<open>
  A database of source 1 with two Services of the operator OP: Service 1 is named "10",
  Service 2 is the one the Route with code R1 points to. The feed row has the route id
  R1 and the short name "10".
\<close>

definition svc_by_name :: service where
  "svc_by_name =
     \<lparr>service_pk = 1, service_code = ''OLD'', s_line_name = ''10'', s_description = ''Old ten'',
      s_mode = ''bus'', s_current = True, s_source = Some 1, s_operators = [''OP'']\<rparr>"

definition svc_by_route :: service where
  "svc_by_route =
     \<lparr>service_pk = 2, service_code = ''X'', s_line_name = ''20'', s_description = ''Twenty'',
      s_mode = ''bus'', s_current = True, s_source = Some 1, s_operators = [''OP'']\<rparr>"

definition route_R1 :: route where
  "route_R1 =
     \<lparr>route_pk = 5, r_source = 1, r_code = ''R1'', r_line_name = ''20'',
      r_description = ''Twenty'', r_service = Some 2\<rparr>"

definition empty_stop_db :: stop_db where
  "empty_stop_db = \<lparr>stop_points = Map.empty, admin_areas = [], regions = []\<rparr>"

definition two_services_store :: store where
  "two_services_store =
     \<lparr>db_operators = [\<lparr>noc = ''OP'', op_name = ''Operator'', op_url = None\<rparr>],
      db_services = [svc_by_name, svc_by_route],
      db_routes = [route_R1],
      db_trips = [], db_stop_times = [], db_stops = empty_stop_db, db_route_links = [],
      next_pk = 6\<rparr>"

definition plain_command :: command where
  "plain_command =
     \<lparr>cfg_source = 1, cfg_source_name = ''Feed'', cfg_agency_prefix = [], cfg_stop_prefix = ''p-'',
      cfg_operator_noc = [], cfg_default_operator = [], cfg_operator_matching = ''noc'',
      cfg_region_handling = ''auto'', cfg_skip_route_links = True, cfg_handle_agencies = True,
      cfg_modes = [3 \<mapsto> ''bus'']\<rparr>"

definition run_OP :: run where
  "run_OP = \<lparr>run_operators = [(''OP'', ''OP'')], run_routes = [], run_route_operators = [],
             run_services = []\<rparr>"

definition line_R1 :: route_line where
  "line_R1 =
     \<lparr>rt_route_id = ''R1'', rt_route_short_name = Some ''10'', rt_route_long_name = Some ''Ten'',
      rt_agency_id = Some ''OP'', rt_route_type = 3\<rparr>"

text \<open>
  The same database after an earlier import: the Route with code R1 (id 5) has the Trips
  10 and 11, Trip 10 has two StopTimes, and Trip 12 with one StopTime belongs to another
  Route (id 4) of another source.
\<close>

definition mk_trip :: "nat \<Rightarrow> nat \<Rightarrow> string \<Rightarrow> trip" where
  "mk_trip pk rid code =
     \<lparr>trip_pk = Some pk, trip_route = rid, trip_calendar = 1, inbound = False, headsign = [],
      ticket_machine_code = code, block = [], vehicle_journey_code = [], trip_operator = None,
      trip_start = Some ''08:00:00'', trip_end = Some ''08:10:00'', destination = None\<rparr>"

definition mk_row :: "nat \<Rightarrow> string \<Rightarrow> int \<Rightarrow> stop_time_row" where
  "mk_row pk stop sq =
     \<lparr>row_stop_id = stop, row_arrival = None, row_departure = 28800, row_sequence = sq,
      row_trip_pk = pk, row_timing_status = ''PTP'', row_pick_up = True, row_set_down = True,
      row_stop_code = []\<rparr>"

definition route_other :: route where
  "route_other =
     \<lparr>route_pk = 4, r_source = 2, r_code = ''R1'', r_line_name = ''1'',
      r_description = ''One'', r_service = None\<rparr>"

definition reimport_store :: store where
  "reimport_store =
     two_services_store
       \<lparr>db_routes := [route_other, route_R1],
        db_trips := [mk_trip 10 5 ''old-a'', mk_trip 11 5 ''old-b'', mk_trip 12 4 ''other''],
        db_stop_times := [mk_row 10 ''p-A'' 1, mk_row 12 ''q-A'' 1, mk_row 10 ''p-B'' 2],
        next_pk := 20\<rparr>"

text \<open>
  A report that names its trip but carries neither \<open>start_date\<close> nor
  \<open>start_time\<close> (both read as the empty text), and a journey with the same code that
  a vehicle may hold as its latest.
\<close>

definition undated_item :: feed_entity where
  "undated_item =
     \<lparr>item_trip = \<lparr>td_trip_id = ''T1'', td_route_id = ''R1'', td_start_date = [],
                    td_start_time = [], td_direction_id = 0\<rparr>,
      item_position = \<lparr>bearing = 90, latitude = -27, longitude = 153\<rparr>,
      item_occupancy_status = 1,
      item_vehicle_id = ''A7393_2264''\<rparr>"

definition cached_journey :: vehicle_journey where
  "cached_journey =
     \<lparr>vj_id = Some 41, vj_code = ''T1'',
      vj_datetime = Some \<lparr>dt_seconds = 63840902400, dt_tzinfo = Some ''Australia/Brisbane''\<rparr>,
      vj_service = Some 2, vj_trip = Some 12, vj_destination = ''City'', vj_route_name = ''20''\<rparr>"






text \<open>
  The database and the dictionaries of the run after the agency, route and stop phases on
  either feed: the Route R1 is attached to the Service found for it, its Trips 10 and 11
  and their StopTimes are deleted.
\<close>

definition reimported_store :: store where
  "reimported_store =
     reimport_store
       \<lparr>db_services := [svc_by_name\<lparr>service_code := ''R1'', s_line_name := ''10'',
                                     s_description := ''Ten''\<rparr>, svc_by_route],
        db_routes := [route_other,
                      route_R1\<lparr>r_line_name := ''10'', r_description := ''Ten'',
                               r_service := Some 1\<rparr>],
        db_trips := [mk_trip 12 4 ''other''],
        db_stop_times := [mk_row 12 ''q-A'' 1]\<rparr>"


section \<open>Properties\<close>

subsection \<open>Trip start and end\<close>

lemma group_stop_times_eq:
  "group_stop_times ls m tid =
     (let new = filter (\<lambda>l. st_trip_id l = tid) ls in
      case m tid of None \<Rightarrow> (if new = [] then None else Some new) | Some old \<Rightarrow> Some (old @ new))"
  by (induction ls arbitrary: m) (auto simp: Let_def split: option.splits)

lemma stop_times_by_trip_eq:
  "stop_times_by_trip ls tid =
     (if filter (\<lambda>l. st_trip_id l = tid) ls = [] then None
      else Some (filter (\<lambda>l. st_trip_id l = tid) ls))"
  by (simp add: stop_times_by_trip_def group_stop_times_eq Let_def)

lemma hd_sort_key_least:
  assumes "xs \<noteq> []" "x \<in> set xs"
  shows "f (hd (sort_key f xs)) \<le> f x"
proof -
  have s: "sorted (map f (sort_key f xs))" by simp
  from assms have ne: "sort_key f xs \<noteq> []" by (metis length_sort list.size(3) length_0_conv)
  then obtain y ys where e: "sort_key f xs = y # ys" by (cases "sort_key f xs") auto
  from assms(2) have "x \<in> set (sort_key f xs)" by simp
  with s e show ?thesis by auto
qed

lemma last_sort_key_greatest:
  assumes "xs \<noteq> []" "x \<in> set xs"
  shows "f x \<le> f (last (sort_key f xs))"
proof -
  have s: "sorted (map f (sort_key f xs))" by simp
  from assms have ne: "sort_key f xs \<noteq> []" by (metis length_sort list.size(3) length_0_conv)
  from assms(2) have "x \<in> set (sort_key f xs)" by simp
  then obtain i where i: "i < length (sort_key f xs)" "sort_key f xs ! i = x"
    by (metis in_set_conv_nth)
  have "map f (sort_key f xs) ! i \<le> map f (sort_key f xs) ! (length (sort_key f xs) - 1)"
    using s i(1) by (intro sorted_nth_mono) auto
  with i ne show ?thesis by (simp add: last_conv_nth)
qed

lemma sort_key_ne: "xs \<noteq> [] \<Longrightarrow> sort_key f xs \<noteq> []"
  by (metis length_sort list.size(3) length_0_conv)

text \<open>
  Claim C2. For a feed trip with at least one stop-time row, the trip built by the
  importer starts at the departure time of the first row and ends at the arrival time
  of the last row of its rows sorted by \<open>stop_sequence\<close>; the first row has the
  smallest sequence number of the trip and the last row the largest. On the rows at
  sequences 1, 2, 3 with departures 08:00, 08:05, 08:12 and arrivals 08:00, 08:05,
  08:10 the trip starts at 08:00:00 and ends at 08:10:00.
\<close>

theorem trip_start_end_from_sorted_rows:
  "(filter (\<lambda>l. st_trip_id l = tl_trip_id line) stop_times \<noteq> [] \<longrightarrow>
     (let rows = filter (\<lambda>l. st_trip_id l = tl_trip_id line) stop_times;
          ordered = sort_key st_stop_sequence rows;
          t = build_trip stop_prefix stops (stop_times_by_trip stop_times) route calendar operator line
      in trip_start t = Some (st_departure_time (hd ordered)) \<and>
         trip_end t = Some (st_arrival_time (last ordered)) \<and>
         hd ordered \<in> set rows \<and> last ordered \<in> set rows \<and>
         (\<forall>r \<in> set rows. st_stop_sequence (hd ordered) \<le> st_stop_sequence r \<and>
                          st_stop_sequence r \<le> st_stop_sequence (last ordered)))) \<and>
   trip_start (build_trip [] (\<lambda>_. True) (stop_times_by_trip spec_rows) 1 1 None
                (mk_trip_line ''R1'' ''S1'' ''T1'')) = Some ''08:00:00'' \<and>
   trip_end (build_trip [] (\<lambda>_. True) (stop_times_by_trip spec_rows) 1 1 None
                (mk_trip_line ''R1'' ''S1'' ''T1'')) = Some ''08:10:00''"
proof (intro conjI impI)
  assume ne: "filter (\<lambda>l. st_trip_id l = tl_trip_id line) stop_times \<noteq> []"
  define rows where "rows = filter (\<lambda>l. st_trip_id l = tl_trip_id line) stop_times"
  define ordered where "ordered = sort_key st_stop_sequence rows"
  from ne have rne: "rows \<noteq> []" by (simp add: rows_def)
  then have one: "ordered \<noteq> []" by (simp add: ordered_def sort_key_ne)
  have by_trip: "stop_times_by_trip stop_times (tl_trip_id line) = Some rows"
    using ne by (simp add: stop_times_by_trip_eq rows_def)
  have st: "trip_start (build_trip stop_prefix stops (stop_times_by_trip stop_times) route calendar operator line)
              = Some (st_departure_time (hd ordered))"
    using one by (simp add: build_trip_def by_trip Let_def ordered_def)
  have en: "trip_end (build_trip stop_prefix stops (stop_times_by_trip stop_times) route calendar operator line)
              = Some (st_arrival_time (last ordered))"
    using one by (simp add: build_trip_def by_trip Let_def ordered_def)
  have hin: "hd ordered \<in> set rows"
    using one hd_in_set[of ordered] by (simp add: ordered_def)
  have lin: "last ordered \<in> set rows"
    using one last_in_set[of ordered] by (simp add: ordered_def)
  have bounds: "\<forall>r \<in> set rows. st_stop_sequence (hd ordered) \<le> st_stop_sequence r \<and>
                          st_stop_sequence r \<le> st_stop_sequence (last ordered)"
    using rne by (auto simp: ordered_def intro: hd_sort_key_least last_sort_key_greatest)
  show "let rows = filter (\<lambda>l. st_trip_id l = tl_trip_id line) stop_times;
          ordered = sort_key st_stop_sequence rows;
          t = build_trip stop_prefix stops (stop_times_by_trip stop_times) route calendar operator line
      in trip_start t = Some (st_departure_time (hd ordered)) \<and>
         trip_end t = Some (st_arrival_time (last ordered)) \<and>
         hd ordered \<in> set rows \<and> last ordered \<in> set rows \<and>
         (\<forall>r \<in> set rows. st_stop_sequence (hd ordered) \<le> st_stop_sequence r \<and>
                          st_stop_sequence r \<le> st_stop_sequence (last ordered))"
    unfolding Let_def using st en hin lin bounds by (simp add: rows_def ordered_def)
next
  show "trip_start (build_trip [] (\<lambda>_. True) (stop_times_by_trip spec_rows) 1 1 None
                (mk_trip_line ''R1'' ''S1'' ''T1'')) = Some ''08:00:00''"
    by (simp add: build_trip_def stop_times_by_trip_eq spec_rows_def mk_stop_time_def mk_trip_line_def)
next
  show "trip_end (build_trip [] (\<lambda>_. True) (stop_times_by_trip spec_rows) 1 1 None
                (mk_trip_line ''R1'' ''S1'' ''T1'')) = Some ''08:10:00''"
    by (simp add: build_trip_def stop_times_by_trip_eq spec_rows_def mk_stop_time_def mk_trip_line_def)
qed

text \<open>The same on rows given out of order, among the rows of another trip.\<close>

theorem trip_start_end_from_sorted_rows_witness:
  "filter (\<lambda>l. st_trip_id l = tl_trip_id (mk_trip_line ''R1'' ''S1'' ''T1'')) shuffled_rows \<noteq> [] \<and>
   trip_start (build_trip ''p-'' (\<lambda>_. True) (stop_times_by_trip shuffled_rows) 1 1 None
                (mk_trip_line ''R1'' ''S1'' ''T1'')) = Some ''09:01:00'' \<and>
   trip_end (build_trip ''p-'' (\<lambda>_. True) (stop_times_by_trip shuffled_rows) 1 1 None
                (mk_trip_line ''R1'' ''S1'' ''T1'')) = Some ''09:40:00''"
  using trip_start_end_from_sorted_rows
          [of "mk_trip_line ''R1'' ''S1'' ''T1''" shuffled_rows "''p-''" "\<lambda>_. True" 1 1 None]
  by (simp add: shuffled_rows_def mk_stop_time_def mk_trip_line_def Let_def)


subsection \<open>Arrival and departure of a stop-time row\<close>

lemma arrival_never_omitted:
  "arrival_departure line = Inr (arrival, departure) \<Longrightarrow> arrival \<noteq> None"
  by (auto simp: arrival_departure_def py_ne_def split: sum.splits if_splits)

text \<open>
  Claim C6. The stored arrival is to be left empty exactly when the row's arrival time
  equals its departure time. The importer compares the arrival text with the departure
  in seconds, which never are equal: on a row that arrives and departs at 08:00:00 it
  stores the arrival, 28800 seconds, beside the departure.
\<close>

theorem arrival_stored_when_equal_to_departure:
  "arrival_departure (mk_stop_time ''T1'' ''A'' 1 ''08:00:00'' ''08:00:00'') = Inr (Some 28800, 28800)"
  by code_simp

subsection \<open>Vehicle locations\<close>

text \<open>
  Claim C10. The location built from a report has heading \<open>None\<close> whenever the
  bearing is 0 and occupancy \<open>None\<close> whenever the occupancy status is 0, in both
  importers and under any occupancy mapping, although the table maps 0 to "Empty".
\<close>

theorem zero_bearing_and_occupancy_become_None:
  "(bearing (item_position item) = 0 \<longrightarrow>
      heading (create_vehicle_location occupancy_mapping item) = None \<and>
      heading (create_vehicle_location_qld item) = None) \<and>
   (item_occupancy_status item = 0 \<longrightarrow>
      occupancy (create_vehicle_location occupancy_mapping item) = None \<and>
      occupancy (create_vehicle_location_qld item) = None) \<and>
   occupancies (PyInt 0) = Some ''Empty''"
  by (simp add: create_vehicle_location_def create_vehicle_location_qld_def or_None_def
        dict_get_def occupancies_def)

theorem zero_bearing_and_occupancy_become_None_witness:
  "bearing (item_position parked_item) = 0 \<and>
   item_occupancy_status parked_item = 0 \<and>
   heading (create_vehicle_location occupancies parked_item) = None \<and>
   heading (create_vehicle_location_qld parked_item) = None \<and>
   occupancy (create_vehicle_location occupancies parked_item) = None \<and>
   occupancy (create_vehicle_location_qld parked_item) = None"
  using zero_bearing_and_occupancy_become_None [of parked_item occupancies]
  by (simp add: parked_item_def)

subsection \<open>Stop ownership\<close>

lemma dict_set_keys:
  "\<forall>(k, v) \<in> set stops. atco_code v = k \<Longrightarrow>
   \<forall>(k, v) \<in> set (dict_set stops (atco_code stop) stop). atco_code v = k"
  by (induction stops) (auto split: if_splits)

lemma build_stops_keys:
  "build_stops source stop_prefix feed_stops stops = Inr result \<Longrightarrow>
   \<forall>(k, v) \<in> set stops. atco_code v = k \<Longrightarrow>
   \<forall>(k, v) \<in> set result. atco_code v = k"
proof (induction feed_stops arbitrary: stops)
  case Nil
  then show ?case by simp
next
  case (Cons line rest)
  from Cons.prems(1) obtain stop where
    s: "stop_of_line source stop_prefix line = Inr stop" and
    r: "build_stops source stop_prefix rest (dict_set stops (atco_code stop) stop) = Inr result"
    by (cases "stop_of_line source stop_prefix line") simp_all
  show ?case
    by (rule Cons.IH[OF r]) (rule dict_set_keys[OF Cons.prems(2)])
qed

lemma bulk_update_untouched:
  "\<forall>stop \<in> set ss. atco_code stop \<noteq> code \<Longrightarrow> bulk_update ss table code = table code"
  by (induction ss arbitrary: table) (auto split: option.splits)

lemma bulk_create_untouched:
  "\<forall>stop \<in> set ss. atco_code stop \<noteq> code \<Longrightarrow> bulk_create ss table code = table code"
  by (induction ss arbitrary: table) auto

lemma assign_admin_area_code [simp]:
  "atco_code (assign_admin_area region_handling db stop) = atco_code stop"
  by (simp add: assign_admin_area_def Let_def split: list.splits)
text \<open>
  Claim C4. In a run of \<open>do_stops\<close> for a source, an existing StopPoint is changed
  only if it is owned by that source or by none, and only if the feed has a row with its
  prefixed code whose coordinates or name differ from the stored ones; a StopPoint owned
  by another source is the same after the run, whatever the feed says.
\<close>

theorem do_stops_ownership:
  assumes "stop_points db code = Some existing"
  shows "(stop_points (fst (do_stops source stop_prefix region_handling feed_stops db)) code
            \<noteq> Some existing \<longrightarrow>
          (sp_source existing = Some source \<or> sp_source existing = None) \<and>
          (\<exists>stops stop. build_stops source stop_prefix feed_stops [] = Inr stops \<and>
             (code, stop) \<in> set stops \<and>
             (sp_latlong existing \<noteq> sp_latlong stop \<or> common_name existing \<noteq> common_name stop))) \<and>
         (sp_source existing \<noteq> Some source \<and> sp_source existing \<noteq> None \<longrightarrow>
          stop_points (fst (do_stops source stop_prefix region_handling feed_stops db)) code
            = Some existing)"
proof (cases "build_stops source stop_prefix feed_stops []")
  case (Inl e)
  then show ?thesis using assms by (simp add: do_stops_def)
next
  case (Inr stops)
  define existing_stops where "existing_stops = stop_points db |` set (map fst stops)"
  define to_create where
    "to_create = filter (\<lambda>stop. existing_stops (atco_code stop) = None) (map snd stops)"
  define to_update where
    "to_update = filter (needs_update source existing_stops) (map snd stops)"
  define to_create' where
    "to_create' = (if region_handling \<noteq> ''skip''
                   then map (assign_admin_area region_handling db) to_create else to_create)"
  have keys: "\<forall>(k, v) \<in> set stops. atco_code v = k"
    using build_stops_keys[OF Inr] by simp
  have result: "stop_points (fst (do_stops source stop_prefix region_handling feed_stops db)) =
                  bulk_create to_create' (bulk_update to_update (stop_points db))"
    by (simp add: do_stops_def Inr Let_def existing_stops_def to_create_def to_update_def
          to_create'_def)
  have not_created: "\<forall>stop \<in> set to_create'. atco_code stop \<noteq> code"
  proof
    fix stop assume "stop \<in> set to_create'"
    then obtain s where s: "s \<in> set to_create" "atco_code stop = atco_code s"
      by (auto simp: to_create'_def split: if_splits)
    then obtain k where "(k, s) \<in> set stops" "existing_stops (atco_code s) = None"
      by (auto simp: to_create_def)
    with keys have "stop_points db (atco_code s) = None"
      by (force simp: existing_stops_def restrict_map_def split: if_splits)
    with assms s show "atco_code stop \<noteq> code" by auto
  qed
  have after: "stop_points (fst (do_stops source stop_prefix region_handling feed_stops db)) code =
                 bulk_update to_update (stop_points db) code"
    by (simp add: result bulk_create_untouched[OF not_created])
  show ?thesis
  proof (intro conjI impI)
    assume changed: "stop_points (fst (do_stops source stop_prefix region_handling feed_stops db)) code
                       \<noteq> Some existing"
    with after assms have "\<not> (\<forall>stop \<in> set to_update. atco_code stop \<noteq> code)"
      using bulk_update_untouched[of to_update code "stop_points db"] by auto
    then obtain stop where stop: "stop \<in> set to_update" "atco_code stop = code" by auto
    then obtain k where k: "(k, stop) \<in> set stops" and nu: "needs_update source existing_stops stop"
      by (auto simp: to_update_def)
    from k keys stop(2) have kc: "k = code" by auto
    from k kc have "existing_stops code = Some existing"
      using assms by (force simp: existing_stops_def restrict_map_def)
    with nu stop(2) have
      own: "sp_source existing = Some source \<or> sp_source existing = None" and
      diff: "sp_latlong existing \<noteq> sp_latlong stop \<or> common_name existing \<noteq> common_name stop"
      by (auto simp: needs_update_def)
    from own show "sp_source existing = Some source \<or> sp_source existing = None" .
    from k kc diff Inr show "\<exists>stops stop. build_stops source stop_prefix feed_stops [] = Inr stops \<and>
             (code, stop) \<in> set stops \<and>
             (sp_latlong existing \<noteq> sp_latlong stop \<or> common_name existing \<noteq> common_name stop)"
      by blast
  next
    assume other: "sp_source existing \<noteq> Some source \<and> sp_source existing \<noteq> None"
    have "\<forall>stop \<in> set to_update. atco_code stop \<noteq> code"
    proof
      fix stop assume "stop \<in> set to_update"
      then have nu: "needs_update source existing_stops stop" by (simp add: to_update_def)
      show "atco_code stop \<noteq> code"
      proof
        assume "atco_code stop = code"
        with nu obtain e where e: "existing_stops code = Some e"
          "sp_source e = Some source \<or> sp_source e = None"
          by (auto simp: needs_update_def split: option.splits)
        then have "e = existing" using assms
          by (auto simp: existing_stops_def restrict_map_def split: if_splits)
        with e other show False by auto
      qed
    qed
    then show "stop_points (fst (do_stops source stop_prefix region_handling feed_stops db)) code
                 = Some existing"
      using after assms by (simp add: bulk_update_untouched)
  qed
qed
text \<open>
  A stop owned by source 2 is left as it is by a run of source 1 whose feed moves and
  renames it.
\<close>

theorem do_stops_ownership_witness:
  "stop_points foreign_db ''p-1'' = Some foreign_stop \<and>
   sp_source foreign_stop \<noteq> Some 1 \<and> sp_source foreign_stop \<noteq> None \<and>
   stop_points (fst (do_stops 1 ''p-'' ''auto'' [moved_stop_line] foreign_db)) ''p-1''
     = Some foreign_stop"
proof -
  have h: "stop_points foreign_db ''p-1'' = Some foreign_stop"
    by (simp add: foreign_db_def)
  have o: "sp_source foreign_stop \<noteq> Some 1 \<and> sp_source foreign_stop \<noteq> None"
    by (simp add: foreign_stop_def)
  from do_stops_ownership[OF h, of 1 "''p-''" "''auto''" "[moved_stop_line]"] o h
  show ?thesis by simp
qed

subsection \<open>Route links: degenerate segments\<close>

text \<open>
  Claim C9. For a pair of consecutive stops whose key is new, whose stops are known and
  whose substring of the shape between the cursor and the second stop's projected
  distance is not a \<open>LineString\<close>, the step raises nothing, leaves the dictionary of
  links as it is and sets the cursor to the second stop's projected distance; the loop
  goes on with the pairs that follow from that state.
\<close>

theorem degenerate_segment_skipped:
  assumes "(service, apply_prefix stop_prefix (st_stop_id a), apply_prefix stop_prefix (st_stop_id b))
             \<notin> fst ` set route_links"
      and "stops (apply_prefix stop_prefix (st_stop_id a)) = Some stop_a"
      and "stops (apply_prefix stop_prefix (st_stop_id b)) = Some stop_b"
      and "start = (if not_dist start_dist then project geometry (sp_latlong stop_a)
                    else the start_dist)"
      and "\<forall>coords. substring geometry start (project geometry (sp_latlong stop_b))
             \<noteq> LineString coords"
  shows "link_step project substring stop_prefix stops existing service geometry (a, b)
           (route_links, start_dist)
         = Inr (route_links, Some (project geometry (sp_latlong stop_b))) \<and>
         link_pairs project substring stop_prefix stops existing service geometry ((a, b) # rest)
           (route_links, start_dist)
         = link_pairs project substring stop_prefix stops existing service geometry rest
             (route_links, Some (project geometry (sp_latlong stop_b)))"
proof -
  have step: "link_step project substring stop_prefix stops existing service geometry (a, b)
                (route_links, start_dist)
              = Inr (route_links, Some (project geometry (sp_latlong stop_b)))"
    using assms by (auto simp: link_step_def Let_def split: geom.splits)
  then show ?thesis by simp
qed

text \<open>
  Stops A and B project to the same distance 1, so the pair (A, B) gives a point and no
  link; the pair (B, C) that follows gives the link from B to C, cut from distance 1.
\<close>

theorem degenerate_segment_skipped_witness:
  "(Some 7, apply_prefix ''p-'' (st_stop_id row_A), apply_prefix ''p-'' (st_stop_id row_B))
     \<notin> fst ` set [] \<and>
   line_stops (apply_prefix ''p-'' (st_stop_id row_A)) = Some (mk_stop ''p-A'' 1 0) \<and>
   line_stops (apply_prefix ''p-'' (st_stop_id row_B)) = Some (mk_stop ''p-B'' 1 0) \<and>
   (\<forall>coords. line_substring () 1 (line_project () (sp_latlong (mk_stop ''p-B'' 1 0)))
      \<noteq> LineString coords) \<and>
   link_step line_project line_substring ''p-'' line_stops Map.empty (Some 7) () (row_A, row_B)
     ([], None) = Inr ([], Some 1) \<and>
   link_pairs line_project line_substring ''p-'' line_stops Map.empty (Some 7) ()
     [(row_A, row_B), (row_B, row_C)] ([], None)
   = Inr ([((Some 7, ''p-B'', ''p-C''),
            \<lparr>rl_id = None, rl_service_id = Some 7, rl_from_stop_id = ''p-B'',
             rl_to_stop_id = ''p-C'', rl_geometry = [(1, 0), (5, 0)]\<rparr>)], Some 5)"
proof -
  have k: "(Some 7, apply_prefix ''p-'' (st_stop_id row_A), apply_prefix ''p-'' (st_stop_id row_B))
             \<notin> fst ` set ([] :: (link_key \<times> route_link) list)"
    by simp
  have sa: "line_stops (apply_prefix ''p-'' (st_stop_id row_A)) = Some (mk_stop ''p-A'' 1 0)"
    by (simp add: line_stops_def row_A_def mk_stop_time_def apply_prefix_def)
  have sb: "line_stops (apply_prefix ''p-'' (st_stop_id row_B)) = Some (mk_stop ''p-B'' 1 0)"
    by (simp add: line_stops_def row_B_def mk_stop_time_def apply_prefix_def)
  have st: "(1::real) = (if not_dist None then line_project () (sp_latlong (mk_stop ''p-A'' 1 0))
                         else the None)"
    by (simp add: not_dist_def line_project_def mk_stop_def)
  have deg: "\<forall>coords. line_substring () 1 (line_project () (sp_latlong (mk_stop ''p-B'' 1 0)))
               \<noteq> LineString coords"
    by (simp add: line_substring_def line_project_def mk_stop_def)
  have next_pair: "link_pairs line_project line_substring ''p-'' line_stops Map.empty (Some 7) ()
                     [(row_B, row_C)] ([], Some (line_project () (sp_latlong (mk_stop ''p-B'' 1 0))))
     = Inr ([((Some 7, ''p-B'', ''p-C''),
            \<lparr>rl_id = None, rl_service_id = Some 7, rl_from_stop_id = ''p-B'',
             rl_to_stop_id = ''p-C'', rl_geometry = [(1, 0), (5, 0)]\<rparr>)], Some 5)"
    by (simp add: link_step_def Let_def line_stops_def row_B_def row_C_def mk_stop_time_def
          apply_prefix_def not_dist_def line_project_def line_substring_def mk_stop_def)
  note skipped = degenerate_segment_skipped
    [where service = "Some 7" and stop_prefix = "''p-''" and a = row_A and b = row_B
       and route_links = "[]" and stops = line_stops and stop_a = "mk_stop ''p-A'' 1 0"
       and stop_b = "mk_stop ''p-B'' 1 0" and start = 1 and start_dist = None
       and project = line_project and substring = line_substring and geometry = "()"
       and existing = Map.empty and rest = "[(row_B, row_C)]"]
  from skipped[OF k sa sb st deg]
  show ?thesis using k sa sb deg next_pair
    by (simp add: line_project_def mk_stop_def)
qed

subsection \<open>The search for an existing Service\<close>

lemma find_service_None:
  "find_service st operator route_id line_name description = None \<longleftrightarrow>
   filter (\<lambda>s. of_operator operator s \<and> q st route_id line_name description s) (db_services st) = []"
proof -
  define cands where
    "cands = filter (\<lambda>s. of_operator operator s \<and> q st route_id line_name description s)
               (db_services st)"
  have e: "sort_key service_pk cands = [] \<longleftrightarrow> cands = []"
    by (metis length_sort length_0_conv)
  have "find_service st operator route_id line_name description = None \<longleftrightarrow>
        sort_key service_pk cands = []"
    by (cases "sort_key service_pk cands") (simp_all add: find_service_def cands_def)
  with e show ?thesis by (simp add: cands_def)
qed

lemma find_service_Some:
  assumes "find_service st operator route_id line_name description = Some s"
  shows "s \<in> set (db_services st) \<and> of_operator operator s \<and>
         q st route_id line_name description s \<and>
         (\<forall>s' \<in> set (db_services st).
            of_operator operator s' \<and> q st route_id line_name description s'
              \<longrightarrow> service_pk s \<le> service_pk s')"
proof -
  define cands where
    "cands = filter (\<lambda>s. of_operator operator s \<and> q st route_id line_name description s)
               (db_services st)"
  from assms obtain rest where srt: "sort_key service_pk cands = s # rest"
    by (auto simp: find_service_def cands_def split: list.splits)
  then have ne: "cands \<noteq> []" by auto
  have hd: "s = hd (sort_key service_pk cands)" using srt by simp
  have "s \<in> set (sort_key service_pk cands)" using srt by simp
  then have mem: "s \<in> set cands" by simp
  have least: "\<forall>s' \<in> set cands. service_pk s \<le> service_pk s'"
    using hd_sort_key_least[OF ne] hd by auto
  from mem least show ?thesis by (auto simp: cands_def)
qed

text \<open>
  Claim C5, as amended. The Service found for a feed route row is the one with the
  smallest id among the Services of the resolved operator that satisfy at least one part
  of the query: a Route with the row's code (of any source) points to the Service, or the
  Service's stored code is the row's code, or its line name equals the derived line name
  without regard to case (when that name is not empty and neither "rail" nor
  "InterCity"), or else its description equals the row's non-empty description. The
  parts are alternatives, not priorities. When no Service satisfies any part, none is
  found and a new one is made.
\<close>

theorem find_service_lowest_id:
  "(case find_service st operator route_id line_name description of
      None \<Rightarrow>
        \<not> list_ex (\<lambda>s. of_operator operator s \<and>
                       (has_route_with_code st route_id s \<or> has_service_code route_id s \<or>
                        name_or_description line_name description s)) (db_services st)
    | Some s \<Rightarrow>
        s \<in> set (db_services st) \<and> of_operator operator s \<and>
        (has_route_with_code st route_id s \<or> has_service_code route_id s \<or>
         name_or_description line_name description s) \<and>
        list_all (\<lambda>s'. of_operator operator s' \<and>
                       (has_route_with_code st route_id s' \<or> has_service_code route_id s' \<or>
                        name_or_description line_name description s')
                       \<longrightarrow> service_pk s \<le> service_pk s') (db_services st))"
proof (cases "find_service st operator route_id line_name description")
  case None
  then show ?thesis
    using find_service_None[of st operator route_id line_name description]
    by (auto simp: list_ex_iff filter_empty_conv q_def)
next
  case (Some s)
  from find_service_Some[OF Some] show ?thesis
    by (simp add: Some list_all_iff q_def)
qed

text \<open>
  The claim as stated fails: Service 2 satisfies the first criterion (a Route with the
  row's code), yet the search returns Service 1, which satisfies neither the first nor
  the second criterion and matches by line name only.
\<close>

theorem service_priority_counterexample:
  "derive_names line_R1 = (''10'', ''Ten'') \<and>
   resolve_operator plain_command run_OP line_R1 = Some ''OP'' \<and>
   find_service two_services_store (Some ''OP'') ''R1'' ''10'' ''Ten'' = Some svc_by_name \<and>
   \<not> has_route_with_code two_services_store ''R1'' svc_by_name \<and>
   \<not> has_service_code ''R1'' svc_by_name \<and>
   svc_by_route \<in> set (db_services two_services_store) \<and>
   of_operator (Some ''OP'') svc_by_route \<and>
   has_route_with_code two_services_store ''R1'' svc_by_route"
  by (simp add: derive_names_def resolve_operator_def find_service_def q_def
        has_route_with_code_def has_service_code_def name_or_description_def of_operator_def
        iexact_def two_services_store_def svc_by_name_def svc_by_route_def route_R1_def
        plain_command_def run_OP_def line_R1_def)

theorem find_service_lowest_id_witness:
  "of_operator (Some ''OP'') svc_by_route \<and>
   has_route_with_code two_services_store ''R1'' svc_by_route \<and>
   find_service two_services_store (Some ''OP'') ''R1'' ''10'' ''Ten'' = Some svc_by_name \<and>
   service_pk svc_by_name \<le> service_pk svc_by_route"
proof -
  have f: "find_service two_services_store (Some ''OP'') ''R1'' ''10'' ''Ten'' = Some svc_by_name"
    by (simp add: find_service_def q_def has_route_with_code_def has_service_code_def
          name_or_description_def of_operator_def iexact_def two_services_store_def
          svc_by_name_def svc_by_route_def route_R1_def)
  have o: "of_operator (Some ''OP'') svc_by_route"
    by (simp add: of_operator_def svc_by_route_def)
  have h: "has_route_with_code two_services_store ''R1'' svc_by_route"
    by (simp add: has_route_with_code_def two_services_store_def svc_by_route_def route_R1_def)
  have m: "svc_by_route \<in> set (db_services two_services_store)"
    by (simp add: two_services_store_def)
  from find_service_lowest_id[where st = two_services_store and operator = "Some ''OP''"
         and route_id = "''R1''" and line_name = "''10''" and description = "''Ten''"]
  have "service_pk svc_by_name \<le> service_pk svc_by_route"
    using f o h m by (simp add: list_all_iff)
  with f o h show ?thesis by simp
qed

subsection \<open>Re-importing a route\<close>

lemma map_of_dict_set: "map_of (dict_set d k v) k = Some v"
  by (induction d) auto

lemma save_service_keeps:
  assumes "save_service cmd line r st = (st1, r1, svc, operator)"
  shows "db_routes st1 = db_routes st" "db_trips st1 = db_trips st"
        "db_stop_times st1 = db_stop_times st" "next_pk st \<le> next_pk st1"
  using assms by (auto simp: save_service_def Let_def split: option.splits)

lemma replace_route_map:
  "distinct (map route_pk rs) \<Longrightarrow>
   replace_route rt rs = map (\<lambda>x. if route_pk x = route_pk rt then rt else x) rs"
proof (induction rs)
  case Nil
  then show ?case by simp
next
  case (Cons row rs)
  show ?case
  proof (cases "route_pk row = route_pk rt")
    case True
    with Cons.prems have "route_pk rt \<notin> route_pk ` set rs" by simp
    then have "\<forall>x \<in> set rs. route_pk x \<noteq> route_pk rt" by (metis imageI)
    then have "map (\<lambda>x. if route_pk x = route_pk rt then rt else x) rs = rs"
      by (induction rs) auto
    with True show ?thesis by simp
  next
    case False
    with Cons show ?thesis by simp
  qed
qed

lemma filter_replace_route:
  assumes d: "distinct (map route_pk rs)"
      and f: "filter P rs = [existing]"
      and pk: "route_pk rt = route_pk existing"
      and P: "P rt"
  shows "filter P (replace_route rt rs) = [rt]"
proof -
  let ?f = "\<lambda>x. if route_pk x = route_pk rt then rt else x"
  have "existing \<in> set (filter P rs)" by (simp add: f)
  then have mem: "existing \<in> set rs" "P existing" by simp_all
  have same: "\<And>x. x \<in> set rs \<Longrightarrow> P (?f x) = P x"
  proof -
    fix x assume x: "x \<in> set rs"
    show "P (?f x) = P x"
    proof (cases "route_pk x = route_pk rt")
      case True
      with d x mem(1) pk have "x = existing" by (auto simp: distinct_map inj_on_def)
      with True P mem(2) show ?thesis by simp
    next
      case False
      then show ?thesis by simp
    qed
  qed
  have "filter P (map ?f rs) = map ?f (filter (P \<circ> ?f) rs)" by (simp add: filter_map)
  also have "filter (P \<circ> ?f) rs = filter P rs"
    by (rule filter_cong) (auto simp: same)
  also have "map ?f (filter P rs) = [rt]" using f pk by simp
  finally show ?thesis by (simp add: replace_route_map[OF d])
qed

lemma update_or_create_route_result:
  assumes ok: "store_ok st"
      and res: "update_or_create_route cmd line svc operator r st = (st', outcome)"
  shows "(case outcome of
            Inl e \<Rightarrow> db_routes st' = db_routes st \<and> db_trips st' = db_trips st
          | Inr r' \<Rightarrow>
              (\<exists>rt. filter (\<lambda>x. r_source x = cfg_source cmd \<and> r_code x = rt_route_id line)
                      (db_routes st') = [rt] \<and>
                    map_of (run_routes r') (rt_route_id line) = Some rt \<and>
                    list_all (\<lambda>t. trip_route t \<noteq> route_pk rt) (db_trips st') \<and>
                    list_all (\<lambda>row. list_all (\<lambda>t. trip_route t = route_pk rt
                                                   \<longrightarrow> trip_pk t \<noteq> Some (row_trip_pk row))
                                         (db_trips st)) (db_stop_times st'))) \<and>
         length (filter (\<lambda>x. r_source x = cfg_source cmd \<and> r_code x = rt_route_id line)
                   (db_routes st'))
           = max 1 (length (filter (\<lambda>x. r_source x = cfg_source cmd \<and> r_code x = rt_route_id line)
                              (db_routes st)))"
proof -
  let ?key = "\<lambda>x. r_source x = cfg_source cmd \<and> r_code x = rt_route_id line"
  from ok have d: "distinct (map route_pk (db_routes st))"
    and tr: "\<forall>t \<in> set (db_trips st). trip_route t < next_pk st"
    by (simp_all add: store_ok_def list_all_iff)
  show ?thesis
  proof (cases "filter ?key (db_routes st)")
    case Nil
    define rt where "rt = \<lparr>route_pk = next_pk st, r_source = cfg_source cmd,
                     r_code = rt_route_id line, r_line_name = s_line_name svc,
                     r_description = s_description svc, r_service = Some (service_pk svc)\<rparr>"
    from res Nil have st': "st' = st\<lparr>db_routes := db_routes st @ [rt], next_pk := Suc (next_pk st)\<rparr>"
      and out: "outcome = Inr (r\<lparr>run_routes := dict_set (run_routes r) (rt_route_id line) rt,
                      run_route_operators :=
                        dict_set (run_route_operators r) (rt_route_id line) operator\<rparr>)"
      by (auto simp: update_or_create_route_def Let_def rt_def)
    have f: "filter ?key (db_routes st') = [rt]"
      using Nil by (simp add: st' rt_def)
    have t: "list_all (\<lambda>t. trip_route t \<noteq> route_pk rt) (db_trips st')"
      using tr by (auto simp: st' rt_def list_all_iff)
    have s: "list_all (\<lambda>row. list_all (\<lambda>t. trip_route t = route_pk rt
                                     \<longrightarrow> trip_pk t \<noteq> Some (row_trip_pk row))
                              (db_trips st)) (db_stop_times st')"
      using tr by (auto simp: rt_def list_all_iff)
    from f t s show ?thesis
      using Nil by (auto simp: out map_of_dict_set)
  next
    case (Cons existing more)
    show ?thesis
    proof (cases more)
      case Nil
      with Cons have fe: "filter ?key (db_routes st) = [existing]" by simp
      then have "existing \<in> set (filter ?key (db_routes st))" by simp
      then have ke: "?key existing" by simp
      define rt where "rt = existing\<lparr>r_line_name := s_line_name svc,
                             r_description := s_description svc,
                             r_service := Some (service_pk svc)\<rparr>"
      have pk: "route_pk rt = route_pk existing" and krt: "?key rt"
        using ke by (simp_all add: rt_def)
      from res fe have st': "st' = delete_trips_of_route (route_pk rt)
                 (st\<lparr>db_routes := replace_route rt (db_routes st)\<rparr>)"
        and out: "outcome = Inr (r\<lparr>run_routes := dict_set (run_routes r) (rt_route_id line) rt,
                      run_route_operators :=
                        dict_set (run_route_operators r) (rt_route_id line) operator\<rparr>)"
        by (auto simp: update_or_create_route_def Let_def rt_def)
      have routes': "db_routes st' = replace_route rt (db_routes st)"
        by (simp add: st' delete_trips_of_route_def Let_def)
      have f: "filter ?key (db_routes st') = [rt]"
        unfolding routes' by (rule filter_replace_route[OF d fe pk krt])
      have t: "list_all (\<lambda>t. trip_route t \<noteq> route_pk rt) (db_trips st')"
        by (simp add: st' delete_trips_of_route_def Let_def list_all_iff)
      have s: "list_all (\<lambda>row. list_all (\<lambda>t. trip_route t = route_pk rt
                                     \<longrightarrow> trip_pk t \<noteq> Some (row_trip_pk row))
                              (db_trips st)) (db_stop_times st')"
        by (simp add: st' delete_trips_of_route_def Let_def list_all_iff) (metis (mono_tags, lifting) imageI mem_Collect_eq)
      from f t s show ?thesis
        using fe by (auto simp: out map_of_dict_set)
    next
      case (Cons second rest)
      with \<open>filter ?key (db_routes st) = existing # more\<close>
      have many: "filter ?key (db_routes st) = existing # second # rest" by simp
      with res have "st' = st" "outcome = Inl MultipleObjectsReturned"
        by (auto simp: update_or_create_route_def)
      then show ?thesis using many by simp
    qed
  qed
qed

text \<open>
  Claim C3. When \<open>handle_route\<close> returns for a route row, exactly one Route has the
  source and the code of the row, it is the Route noted in \<open>self.routes\<close>, no Trip of
  the database is attached to it, and no StopTime left in the database belongs to a Trip
  that was attached to it before the call; so the Trips the run attaches to it afterwards
  are its only ones. Whether it returns or raises, the number of Routes with that source
  and code does not grow beyond one (or beyond what it was).
\<close>

theorem reimport_route_drops_trips:
  assumes ok: "store_ok st"
      and res: "handle_route cmd line r st = (st', outcome)"
  shows "(case outcome of
            Inl e \<Rightarrow> db_routes st' = db_routes st \<and> db_trips st' = db_trips st
          | Inr r' \<Rightarrow>
              (\<exists>rt. filter (\<lambda>x. r_source x = cfg_source cmd \<and> r_code x = rt_route_id line)
                      (db_routes st') = [rt] \<and>
                    map_of (run_routes r') (rt_route_id line) = Some rt \<and>
                    list_all (\<lambda>t. trip_route t \<noteq> route_pk rt) (db_trips st') \<and>
                    list_all (\<lambda>row. list_all (\<lambda>t. trip_route t = route_pk rt
                                                   \<longrightarrow> trip_pk t \<noteq> Some (row_trip_pk row))
                                         (db_trips st)) (db_stop_times st'))) \<and>
         length (filter (\<lambda>x. r_source x = cfg_source cmd \<and> r_code x = rt_route_id line)
                   (db_routes st'))
           = max 1 (length (filter (\<lambda>x. r_source x = cfg_source cmd \<and> r_code x = rt_route_id line)
                              (db_routes st)))"
proof -
  obtain st1 r1 svc operator where sv: "save_service cmd line r st = (st1, r1, svc, operator)"
    by (metis prod_cases4)
  note keep = save_service_keeps[OF sv]
  from ok keep have ok1: "store_ok st1"
    by (auto simp: store_ok_def list_all_iff)
  from res sv have up: "update_or_create_route cmd line svc operator r1 st1 = (st', outcome)"
    by (simp add: handle_route_def)
  show ?thesis
    by (rule update_or_create_route_result[OF ok1 up, unfolded keep(1) keep(2)])
qed

text \<open>
  Re-importing the route R1 of source 1: the Route of source 2 with the same code is not
  touched, the Trips 10 and 11 and the StopTimes of Trip 10 are gone, Trip 12 and its
  StopTime stay.
\<close>

theorem reimport_route_drops_trips_witness:
  "store_ok reimport_store \<and>
   map route_pk (filter (\<lambda>x. r_source x = cfg_source plain_command \<and> r_code x = rt_route_id line_R1)
                   (db_routes (fst (handle_route plain_command line_R1 run_OP reimport_store)))) = [5] \<and>
   map trip_pk (db_trips (fst (handle_route plain_command line_R1 run_OP reimport_store)))
     = [Some 12] \<and>
   map row_trip_pk (db_stop_times (fst (handle_route plain_command line_R1 run_OP reimport_store)))
     = [12]"
proof -
  have ok: "store_ok reimport_store"
    by (simp add: store_ok_def reimport_store_def two_services_store_def route_other_def
          route_R1_def mk_trip_def)
  have res: "handle_route plain_command line_R1 run_OP reimport_store
               = (fst (handle_route plain_command line_R1 run_OP reimport_store),
                  snd (handle_route plain_command line_R1 run_OP reimport_store))"
    by simp
  have ev: "fst (handle_route plain_command line_R1 run_OP reimport_store)
              = reimport_store
                  \<lparr>db_services := [svc_by_name\<lparr>service_code := ''R1'', s_line_name := ''10'',
                                                s_description := ''Ten''\<rparr>, svc_by_route],
                   db_routes := [route_other,
                                 route_R1\<lparr>r_line_name := ''10'', r_description := ''Ten'',
                                          r_service := Some 1\<rparr>],
                   db_trips := [mk_trip 12 4 ''other''],
                   db_stop_times := [mk_row 12 ''q-A'' 1]\<rparr>"
    by (simp add: handle_route_def save_service_def update_or_create_route_def
          delete_trips_of_route_def derive_names_def resolve_operator_def find_service_def q_def
          has_route_with_code_def has_service_code_def name_or_description_def of_operator_def
          iexact_def reimport_store_def two_services_store_def svc_by_name_def svc_by_route_def
          route_R1_def route_other_def plain_command_def run_OP_def line_R1_def mk_trip_def
          mk_row_def Let_def)
  have routes: "map route_pk (filter (\<lambda>x. r_source x = cfg_source plain_command \<and> r_code x = rt_route_id line_R1)
                   (db_routes (fst (handle_route plain_command line_R1 run_OP reimport_store)))) = [5]"
    unfolding ev
    by (simp add: reimport_store_def two_services_store_def route_other_def route_R1_def
          plain_command_def line_R1_def)
  have trips: "map trip_pk (db_trips (fst (handle_route plain_command line_R1 run_OP reimport_store)))
                 = [Some 12]"
    unfolding ev by (simp add: mk_trip_def)
  have rows: "map row_trip_pk (db_stop_times (fst (handle_route plain_command line_R1 run_OP reimport_store)))
                = [12]"
    unfolding ev by (simp add: mk_row_def)
  from reimport_route_drops_trips[OF ok res] ok routes trips rows show ?thesis
    by blast
qed

subsection \<open>The journey of a report\<close>

lemma fill_journey_datetime:
  "vj_datetime (fst (fill_journey st item v journey svc trp)) = vj_datetime journey"
  by (simp add: fill_journey_def Let_def split: option.splits)

lemma get_journey_undated:
  "get_journey cmd st undated_item v = Inl ValueError"
  by (simp add: get_journey_def undated_item_def strptime_noon_def)

text \<open>
  Claim C7. A report whose journey code equals the code of the vehicle's cached journey
  is to give that journey back. \<open>get_journey\<close> of \<open>import_gtfsr_worldwide\<close> reads
  the date of the report first: on the report without \<open>start_date\<close> it raises
  \<open>ValueError\<close> although the vehicle holds a journey with the report's code, where
  \<open>get_journey\<close> of \<open>import_gtfsr_translink_qld\<close> returns the cached journey and
  leaves the vehicle as it is.
\<close>

theorem cached_journey_lost_without_start_date:
  "vj_code cached_journey = td_trip_id (item_trip undated_item) \<and>
   get_journey cmd st undated_item (v\<lparr>latest_journey := Some cached_journey\<rparr>) = Inl ValueError \<and>
   get_journey_qld cmd st undated_item (v\<lparr>latest_journey := Some cached_journey\<rparr>)
     = Inr (cached_journey, v\<lparr>latest_journey := Some cached_journey\<rparr>)"
  by (simp add: get_journey_def get_journey_qld_def undated_item_def cached_journey_def
        strptime_noon_def new_journey_def Let_def)

text \<open>
  Claim C8. A report without \<open>start_date\<close> and \<open>start_time\<close> is to be dated now, in
  the zone of the feed. For a vehicle without a cached journey, \<open>get_journey\<close> of
  \<open>import_gtfsr_worldwide\<close> raises \<open>ValueError\<close> on it, where \<open>get_journey\<close> of
  \<open>import_gtfsr_translink_qld\<close> returns a journey dated now in its zone.
\<close>

theorem no_fallback_to_now_worldwide:
  "get_journey cmd st undated_item (v\<lparr>latest_journey := None\<rparr>) = Inl ValueError \<and>
   (case get_journey_qld cmd st undated_item (v\<lparr>latest_journey := None\<rparr>) of
      Inl e \<Rightarrow> False
    | Inr result \<Rightarrow>
        vj_datetime (fst result)
          = Some \<lparr>dt_seconds = live_now cmd, dt_tzinfo = Some (live_tzinfo cmd)\<rparr>)"
proof -
  have w: "get_journey cmd st undated_item (v\<lparr>latest_journey := None\<rparr>) = Inl ValueError"
    by (simp add: get_journey_def undated_item_def strptime_noon_def)
  have e: "td_start_date (item_trip undated_item) = []" "td_start_time (item_trip undated_item) = []"
    by (simp_all add: undated_item_def)
  have q: "(case get_journey_qld cmd st undated_item (v\<lparr>latest_journey := None\<rparr>) of
              Inl e \<Rightarrow> False
            | Inr result \<Rightarrow>
                vj_datetime (fst result)
                  = Some \<lparr>dt_seconds = live_now cmd, dt_tzinfo = Some (live_tzinfo cmd)\<rparr>)"
    unfolding get_journey_qld_def Let_def e
    by (simp add: new_journey_def fill_journey_datetime)
  from w q show ?thesis by simp
qed

text \<open>
  For a report with a date and a time that parse, both importers date a new journey at
  the start of the service day plus the start time, in the zone of the feed: noon of the
  day, plus the time, minus twelve hours.
\<close>

lemma start_date_time_from_noon:
  assumes "strptime_noon date = Inr noon" and "parse_duration time = Some seconds"
  shows "start_date_time tz noon (parse_duration time)
           = Inr \<lparr>dt_seconds = (dt_seconds noon - 43200) + seconds, dt_tzinfo = Some tz\<rparr>"
  using assms by (simp add: start_date_time_def)

subsection \<open>The run as a whole\<close>







lemma reimported_store_stops:
  "reimported_store\<lparr>db_stops := db_stops reimported_store\<rparr> = reimported_store"
  by simp






end
